theory Spec2Isabelle
  imports Complex_Main "HOL-Library.Word"
begin

section \<open>Data model of \<^verbatim>\<open>labot/mitm/bridge.py\<close>\<close>

text \<open>
  The two sockets of a bridge: \<^verbatim>\<open>coJeu\<close> (towards the game client) and \<^verbatim>\<open>coSer\<close>
  (towards the server). \<^verbatim>\<open>self.other\<close> maps each one to the opposite one and
  \<^verbatim>\<open>self.conns\<close> lists them in the order \<^verbatim>\<open>[coJeu, coSer]\<close>.
\<close>

datatype conn = CoJeu | CoSer

fun other :: "conn \<Rightarrow> conn" where
  "other CoJeu = CoSer"
| "other CoSer = CoJeu"

definition conns :: "conn list" where
  "conns = [CoJeu, CoSer]"

type_synonym byte = "8 word"
type_synonym bytes = "byte list"

text \<open>
  Python exceptions are values. \<open>OtherError\<close> stands for any exception raised by an
  external collaborator (socket, dumper, HTTP client), tagged by its name.
\<close>

datatype error = AssertionError | KeyError | IndexError | TypeError | OtherError string

text \<open>
  The outcome of a method that mutates \<^verbatim>\<open>self\<close>: it returns, or it raises, and in both
  cases the object is left in some state.
\<close>

datatype 's outcome = Returned 's | Raised error 's

fun state_of :: "'s outcome \<Rightarrow> 's" where
  "state_of (Returned s) = s"
| "state_of (Raised e s) = s"

fun raised :: "'s outcome \<Rightarrow> error option" where
  "raised (Returned s) = None"
| "raised (Raised e s) = Some e"

section \<open>\<^verbatim>\<open>BridgeHandler.loop\<close>\<close>

text \<open>
  One call of \<^verbatim>\<open>r.recv(8192)\<close> returns a chunk (empty when the peer closed) or raises.
  One call of \<^verbatim>\<open>select.select(conns, [], conns)\<close> returns the readable sockets, here
  paired with what \<^verbatim>\<open>recv\<close> will return on each, and the sockets in an exceptional
  condition, or raises. The run of a session is driven by the list of what the
  successive \<^verbatim>\<open>select\<close> calls return; when the list is used up, \<^verbatim>\<open>select\<close> blocks.
\<close>

datatype recv_result = Recv bytes | RecvRaises error

datatype select_result =
  Select "(conn \<times> recv_result) list" "conn list"
| SelectRaises error

text \<open>
  The session owns the policy object, and for each socket the number of times
  \<^verbatim>\<open>close\<close> was called on it. \<open>delivered\<close> records the calls of \<^verbatim>\<open>self.handle\<close>.
\<close>

record 'p session =
  policy :: 'p
  close_calls :: "conn \<Rightarrow> nat"
  delivered :: "(bytes \<times> conn) list"

datatype 's for_result = Completed 's | Break 's | ForRaised error 's

text \<open>
  The body of \<^verbatim>\<open>for r in rlist\<close> (lines 79-84). \<open>handle\<close> is the abstract method; it
  yields \<open>None\<close> when it does not return.
\<close>

fun for_rlist ::
  "(bytes \<Rightarrow> conn \<Rightarrow> 'p \<Rightarrow> 'p outcome option) \<Rightarrow> (conn \<times> recv_result) list \<Rightarrow>
     'p session \<Rightarrow> 'p session for_result option" where
  "for_rlist handle [] s = Some (Completed s)"
| "for_rlist handle ((r, RecvRaises e) # rs) s = Some (ForRaised e s)"
| "for_rlist handle ((r, Recv data) # rs) s =
     (if data = [] then Some (Break s)
      else (case handle data r (policy s) of
              None \<Rightarrow> None
            | Some (Raised e p) \<Rightarrow>
                Some (ForRaised e (s\<lparr>policy := p, delivered := delivered s @ [(data, r)]\<rparr>))
            | Some (Returned p) \<Rightarrow>
                for_rlist handle rs (s\<lparr>policy := p, delivered := delivered s @ [(data, r)]\<rparr>)))"

fun for_session :: "'s for_result \<Rightarrow> 's" where
  "for_session (Completed s) = s"
| "for_session (Break s) = s"
| "for_session (ForRaised e s) = s"

datatype 's loop_result = Waiting 's | Finished 's | Propagated error 's

text \<open>The \<^verbatim>\<open>while active\<close> loop inside \<^verbatim>\<open>try\<close> (lines 75-84).\<close>

fun while_active ::
  "(bytes \<Rightarrow> conn \<Rightarrow> 'p \<Rightarrow> 'p outcome option) \<Rightarrow> select_result list \<Rightarrow>
     'p session \<Rightarrow> 'p session loop_result option" where
  "while_active handle [] s = Some (Waiting s)"
| "while_active handle (SelectRaises e # evs) s = Some (Propagated e s)"
| "while_active handle (Select rlist xlist # evs) s =
     (if xlist \<noteq> [] \<or> rlist = [] then Some (Finished s)
      else (case for_rlist handle rlist s of
              None \<Rightarrow> None
            | Some (Completed s') \<Rightarrow> while_active handle evs s'
            | Some (Break s') \<Rightarrow> Some (Finished s')
            | Some (ForRaised e s') \<Rightarrow> Some (Propagated e s')))"

text \<open>
  The \<^verbatim>\<open>finally\<close> block (lines 85-87): \<^verbatim>\<open>for c in conns: c.close()\<close>, where \<^verbatim>\<open>close\<close>
  does not raise.
\<close>

definition close :: "conn \<Rightarrow> 'p session \<Rightarrow> 'p session" where
  "close c s = s\<lparr>close_calls := (close_calls s)(c := close_calls s c + 1)\<rparr>"

definition close_all :: "'p session \<Rightarrow> 'p session" where
  "close_all s = foldl (\<lambda>s c. close c s) s conns"

fun finally_block :: "'p session loop_result \<Rightarrow> 'p session loop_result" where
  "finally_block (Waiting s) = Waiting s"
| "finally_block (Finished s) = Finished (close_all s)"
| "finally_block (Propagated e s) = Propagated e (close_all s)"

definition loop ::
  "(bytes \<Rightarrow> conn \<Rightarrow> 'p \<Rightarrow> 'p outcome option) \<Rightarrow> select_result list \<Rightarrow>
     'p session \<Rightarrow> 'p session loop_result option" where
  "loop handle evs s = map_option finally_block (while_active handle evs s)"

fun exited :: "'s loop_result \<Rightarrow> bool" where
  "exited (Waiting s) = False"
| "exited (Finished s) = True"
| "exited (Propagated e s) = True"

fun session_of :: "'s loop_result \<Rightarrow> 's" where
  "session_of (Waiting s) = s"
| "session_of (Finished s) = s"
| "session_of (Propagated e s) = s"

fun propagated :: "'s loop_result \<Rightarrow> error option" where
  "propagated (Waiting s) = None"
| "propagated (Finished s) = None"
| "propagated (Propagated e s) = Some e"

definition new_session :: "'p \<Rightarrow> 'p session" where
  "new_session p = \<lparr>policy = p, close_calls = (\<lambda>c. 0), delivered = []\<rparr>"


section \<open>Messages and external collaborators\<close>

text \<open>
  A raw message as \<^verbatim>\<open>Msg\<close> holds it: the id, the payload and the sequence counter,
  which is \<^verbatim>\<open>None\<close> on frames that do not come from the client.
\<close>

record Msg =
  msg_id :: nat
  msg_data :: bytes
  msg_count :: "int option"

text \<open>The argument of \<^verbatim>\<open>send_to_client\<close> and \<^verbatim>\<open>send_to_server\<close>: a \<^verbatim>\<open>Msg\<close> or raw bytes.\<close>

datatype payload = PMsg Msg | PBytes bytes

text \<open>
  A parsed message is the dictionary returned by \<^verbatim>\<open>protocol.read\<close>; its values are
  JSON-like. \<open>getitem\<close> is \<^verbatim>\<open>d[k]\<close> for a string key, \<open>getindex\<close> is \<^verbatim>\<open>xs[i]\<close> for a
  non-negative literal index, \<open>len\<close> is \<^verbatim>\<open>len(x)\<close>; each raises as Python does.
\<close>

datatype json =
  JNull | JBool bool | JInt int | JStr string | JList "json list" | JDict "(string \<times> json) list"

fun getitem :: "json \<Rightarrow> string \<Rightarrow> error + json" where
  "getitem (JDict kvs) k = (case map_of kvs k of None \<Rightarrow> Inl KeyError | Some v \<Rightarrow> Inr v)"
| "getitem _ k = Inl TypeError"

fun getindex :: "json \<Rightarrow> nat \<Rightarrow> error + json" where
  "getindex (JList xs) i = (if i < length xs then Inr (xs ! i) else Inl IndexError)"
| "getindex (JStr s) i = (if i < length s then Inr (JStr [s ! i]) else Inl IndexError)"
| "getindex (JDict kvs) i = Inl KeyError"
| "getindex _ i = Inl TypeError"

fun len :: "json \<Rightarrow> error + nat" where
  "len (JList xs) = Inr (length xs)"
| "len (JStr s) = Inr (length s)"
| "len (JDict kvs) = Inr (length kvs)"
| "len _ = Inl TypeError"

fun bind_err :: "error + 'a \<Rightarrow> ('a \<Rightarrow> error + 'b) \<Rightarrow> error + 'b" where
  "bind_err (Inl e) f = Inl e"
| "bind_err (Inr x) f = f x"

text \<open>
  The modules \<^verbatim>\<open>labot.data\<close> (\<^verbatim>\<open>Buffer\<close>, \<^verbatim>\<open>Msg\<close>, \<^verbatim>\<open>Dumper\<close>) and \<^verbatim>\<open>labot.protocol\<close>,
  the HTTP client and the clock are used by the handlers but defined elsewhere; the
  handlers are parameterised by them:
  \<^item> \<open>Msg_fromRaw buf from_client\<close> is \<^verbatim>\<open>Msg.fromRaw\<close> on the unread bytes of a
    \<^verbatim>\<open>Buffer\<close>: \<open>None\<close> when no complete frame is there (the buffer is left as it
    is), else the message and the bytes left in the buffer;
  \<^item> \<open>protocol_msg_from_id\<close> is the dictionary \<^verbatim>\<open>protocol.msg_from_id\<close> (an entry is
    represented by its name);
  \<^item> \<open>protocol_read msgType data\<close> is \<^verbatim>\<open>protocol.read\<close>: it raises, or gives the
    parsed message and \<^verbatim>\<open>msg.data.remaining()\<close> after the read;
  \<^item> \<open>Msg_bytes\<close> is \<^verbatim>\<open>Msg.bytes\<close> and \<open>Msg_from_json\<close> is \<^verbatim>\<open>Msg.from_json\<close>;
  \<^item> \<open>requests_get itemID prices\<close> is the \<^verbatim>\<open>requests.get\<close> of line 384, whose URL is
    built from the item id and three prices: \<open>Some e\<close> when it raises \<open>e\<close>;
  \<^item> \<open>getpeername_local origin\<close> is \<^verbatim>\<open>origin.getpeername()[0] == "127.0.0.1"\<close>;
  \<^item> \<open>time_time k\<close> is what the \<open>k\<close>-th call of \<^verbatim>\<open>time.time()\<close> returns (as a real
    number: the rounding of floats is not modelled).
  Printing, logging and \<^verbatim>\<open>time.sleep\<close> are not modelled, and \<^verbatim>\<open>sendall\<close> does not
  raise.
\<close>

record env =
  Msg_fromRaw :: "bytes \<Rightarrow> bool \<Rightarrow> (Msg \<times> bytes) option"
  protocol_msg_from_id :: "nat \<Rightarrow> string option"
  protocol_read :: "string \<Rightarrow> bytes \<Rightarrow> error + (json \<times> nat)"
  Msg_bytes :: "Msg \<Rightarrow> bytes"
  Msg_from_json :: "json \<Rightarrow> Msg"
  requests_get :: "json \<Rightarrow> json list \<Rightarrow> error option"
  getpeername_local :: "conn \<Rightarrow> bool"
  time_time :: "nat \<Rightarrow> real"

section \<open>Forwarding and dispatching policies\<close>

text \<open>
  The fields of the handler classes. \<open>sent c\<close> lists the arguments of the \<^verbatim>\<open>sendall\<close>
  calls made on socket \<open>c\<close>; \<open>buf\<close> is the dictionary \<^verbatim>\<open>self.buf\<close> of the unread bytes
  of each direction. \<^verbatim>\<open>InjectorBridgeHandler\<close> and \<^verbatim>\<open>LucInjector\<close> both declare
  \<^verbatim>\<open>buf\<close>, \<^verbatim>\<open>injected_to_server\<close> and \<^verbatim>\<open>counter\<close>; these are shared here.
\<close>

record sockets =
  sent :: "conn \<Rightarrow> bytes list"

record buffered = sockets +
  buf :: "conn \<Rightarrow> bytes"

record sequenced = buffered +
  injected_to_server :: int
  counter :: int

definition sendall :: "conn \<Rightarrow> bytes \<Rightarrow> 'a sockets_scheme \<Rightarrow> 'a sockets_scheme" where
  "sendall c data st = st\<lparr>sent := (sent st)(c := sent st c @ [data])\<rparr>"

text \<open>\<^verbatim>\<open>DummyBridgeHandler.handle\<close> (lines 94-95).\<close>

definition DummyBridgeHandler_handle ::
  "bytes \<Rightarrow> conn \<Rightarrow> 'a sockets_scheme \<Rightarrow> 'a sockets_scheme" where
  "DummyBridgeHandler_handle data origin st = sendall (other origin) data st"

text \<open>\<^verbatim>\<open>self.buf[origin] += data\<close>.\<close>

definition buf_append :: "conn \<Rightarrow> bytes \<Rightarrow> 'a buffered_scheme \<Rightarrow> 'a buffered_scheme" where
  "buf_append origin data st = st\<lparr>buf := (buf st)(origin := buf st origin @ data)\<rparr>"

text \<open>\<^verbatim>\<open>msg = Msg.fromRaw(self.buf[origin], from_client)\<close> with \<^verbatim>\<open>from_client = origin == self.coJeu\<close>.\<close>

definition fetch :: "env \<Rightarrow> conn \<Rightarrow> 'a buffered_scheme \<Rightarrow> Msg option \<times> 'a buffered_scheme" where
  "fetch env origin st =
     (case Msg_fromRaw env (buf st origin) (origin = CoJeu) of
        None \<Rightarrow> (None, st)
      | Some (m, rest) \<Rightarrow> (Some m, st\<lparr>buf := (buf st)(origin := rest)\<rparr>))"

text \<open>
  The body of the \<^verbatim>\<open>while\<close> loop of \<^verbatim>\<open>MsgBridgeHandler.handle\<close> up to the next
  \<^verbatim>\<open>Msg.fromRaw\<close> (lines 131-140); \<open>handle_message\<close> is the abstract method.
\<close>

definition MsgBridgeHandler_body ::
  "env \<Rightarrow> (json \<Rightarrow> conn \<Rightarrow> 'a buffered_scheme \<Rightarrow> 'a buffered_scheme outcome) \<Rightarrow> conn \<Rightarrow> Msg \<Rightarrow>
     'a buffered_scheme \<Rightarrow> 'a buffered_scheme outcome" where
  "MsgBridgeHandler_body env handle_message origin m st =
     (case protocol_msg_from_id env (msg_id m) of
        Some msgType \<Rightarrow>
          (case protocol_read env msgType (msg_data m) of
             Inl e \<Rightarrow> Raised e st
           | Inr (parsedMsg, remaining) \<Rightarrow>
               if remaining = 0 then handle_message parsedMsg origin st
               else Raised AssertionError st)
      | None \<Rightarrow> Returned st)"

partial_function (option) MsgBridgeHandler_while ::
  "env \<Rightarrow> (json \<Rightarrow> conn \<Rightarrow> 'a buffered_scheme \<Rightarrow> 'a buffered_scheme outcome) \<Rightarrow> conn \<Rightarrow>
     Msg option \<Rightarrow> 'a buffered_scheme \<Rightarrow> 'a buffered_scheme outcome option" where
  "MsgBridgeHandler_while env handle_message origin msg st =
     (case msg of
        None \<Rightarrow> Some (Returned st)
      | Some m \<Rightarrow>
          (case MsgBridgeHandler_body env handle_message origin m st of
             Raised e st' \<Rightarrow> Some (Raised e st')
           | Returned st' \<Rightarrow>
               (case fetch env origin st' of
                  (msg', st'') \<Rightarrow> MsgBridgeHandler_while env handle_message origin msg' st'')))"

declare MsgBridgeHandler_while.simps [code]

text \<open>\<^verbatim>\<open>MsgBridgeHandler.handle\<close> (lines 123-150).\<close>

definition MsgBridgeHandler_handle ::
  "env \<Rightarrow> (json \<Rightarrow> conn \<Rightarrow> 'a buffered_scheme \<Rightarrow> 'a buffered_scheme outcome) \<Rightarrow> bytes \<Rightarrow> conn \<Rightarrow>
     'a buffered_scheme \<Rightarrow> 'a buffered_scheme outcome option" where
  "MsgBridgeHandler_handle env handle_message data origin st =
     (case fetch env origin (buf_append origin data (DummyBridgeHandler_handle data origin st)) of
        (msg, st') \<Rightarrow> MsgBridgeHandler_while env handle_message origin msg st')"


section \<open>\<^verbatim>\<open>InjectorBridgeHandler\<close>\<close>

record InjectorBridgeHandler = sequenced +
  injected_to_client :: int
  db :: "Msg list"
  db_size :: nat
  dumper :: "(Msg \<Rightarrow> error option) option"

text \<open>\<^verbatim>\<open>deque([], maxlen=db_size).append\<close>: a full deque drops its oldest entry.\<close>

definition deque_append :: "nat \<Rightarrow> 'a list \<Rightarrow> 'a \<Rightarrow> 'a list" where
  "deque_append maxlen d x =
     (if maxlen = 0 then d else if length d < maxlen then d @ [x] else tl d @ [x])"

text \<open>\<^verbatim>\<open>InjectorBridgeHandler.__init__\<close> (lines 170-177).\<close>

definition InjectorBridgeHandler_init ::
  "nat \<Rightarrow> (Msg \<Rightarrow> error option) option \<Rightarrow> InjectorBridgeHandler" where
  "InjectorBridgeHandler_init n d =
     \<lparr>sent = (\<lambda>c. []), buf = (\<lambda>c. []), injected_to_server = 0, counter = 0,
      injected_to_client = 0, db = [], db_size = n, dumper = d\<rparr>"

text \<open>\<^verbatim>\<open>send_to_client\<close> (lines 179-183).\<close>

definition send_to_client ::
  "env \<Rightarrow> payload \<Rightarrow> 'a InjectorBridgeHandler_scheme \<Rightarrow> 'a InjectorBridgeHandler_scheme" where
  "send_to_client env data st =
     (let raw = (case data of PMsg m \<Rightarrow> Msg_bytes env m | PBytes b \<Rightarrow> b)
      in sendall CoJeu raw (st\<lparr>injected_to_client := injected_to_client st + 1\<rparr>))"

text \<open>
  \<^verbatim>\<open>send_to_server\<close>, of \<^verbatim>\<open>InjectorBridgeHandler\<close> (lines 185-190) and of
  \<^verbatim>\<open>LucInjector\<close> (lines 285-292), which differ by a \<^verbatim>\<open>print\<close> only.
\<close>

definition send_to_server :: "env \<Rightarrow> payload \<Rightarrow> 'a sequenced_scheme \<Rightarrow> 'a sequenced_scheme" where
  "send_to_server env data st =
     (let raw = (case data of
                   PMsg m \<Rightarrow> Msg_bytes env (m\<lparr>msg_count := Some (counter st + 1)\<rparr>)
                 | PBytes b \<Rightarrow> b)
      in sendall CoSer raw (st\<lparr>injected_to_server := injected_to_server st + 1\<rparr>))"

text \<open>\<^verbatim>\<open>send_message\<close> (lines 198-202 and 296-300).\<close>

definition send_message :: "env \<Rightarrow> string \<Rightarrow> 'a sequenced_scheme \<Rightarrow> 'a sequenced_scheme" where
  "send_message env s st =
     send_to_server env
       (PMsg (Msg_from_json env
          (JDict [(''__type__'', JStr ''ChatClientMultiMessage''), (''content'', JStr s),
                  (''channel'', JInt 0)]))) st"

text \<open>\<^verbatim>\<open>InjectorBridgeHandler.handle_message\<close> (lines 264-269) only prints.\<close>

definition InjectorBridgeHandler_handle_message ::
  "json \<Rightarrow> conn \<Rightarrow> 'a InjectorBridgeHandler_scheme \<Rightarrow> 'a InjectorBridgeHandler_scheme" where
  "InjectorBridgeHandler_handle_message m o' st = st"

text \<open>
  The branch of a message whose id is in the registry (lines 214-244), up to the next
  \<^verbatim>\<open>Msg.fromRaw\<close>. The message object is modified in place by \<^verbatim>\<open>msg.count += ...\<close>
  before it is appended to \<^verbatim>\<open>self.db\<close> and dumped.
\<close>

definition InjectorBridgeHandler_known ::
  "env \<Rightarrow> conn \<Rightarrow> string \<Rightarrow> Msg \<Rightarrow> 'a InjectorBridgeHandler_scheme \<Rightarrow>
     'a InjectorBridgeHandler_scheme outcome" where
  "InjectorBridgeHandler_known env origin msgType m st =
     (case protocol_read env msgType (msg_data m) of
        Inl e \<Rightarrow> Raised e st
      | Inr (parsedMsg, remaining) \<Rightarrow>
          if remaining \<notin> {0, 48} then Raised AssertionError st
          else
            (case (if origin = CoJeu
                   then (case msg_count m of
                           None \<Rightarrow> Inl TypeError
                         | Some c \<Rightarrow>
                             (let c' = c + (injected_to_server st - injected_to_client st)
                              in Inr (m\<lparr>msg_count := Some c'\<rparr>, st\<lparr>counter := c'\<rparr>)))
                   else Inr (m, st\<lparr>counter := counter st + 1\<rparr>)) of
               Inl e \<Rightarrow> Raised e st
             | Inr (m', st1) \<Rightarrow>
                 (let st2 = st1\<lparr>db := deque_append (db_size st1) (db st1) m'\<rparr>
                  in (case dumper st2 of
                        None \<Rightarrow> Returned (InjectorBridgeHandler_handle_message parsedMsg origin st2)
                      | Some d \<Rightarrow>
                          (case d m' of
                             Some e \<Rightarrow> Raised e st2
                           | None \<Rightarrow>
                               Returned (InjectorBridgeHandler_handle_message parsedMsg origin st2))))))"

text \<open>
  The \<^verbatim>\<open>while msg is not None\<close> loop (lines 212-250). In the \<^verbatim>\<open>else\<close> branch (lines
  247-250) nothing is assigned to \<^verbatim>\<open>msg\<close>.
\<close>

partial_function (option) InjectorBridgeHandler_while ::
  "env \<Rightarrow> conn \<Rightarrow> Msg option \<Rightarrow> 'a InjectorBridgeHandler_scheme \<Rightarrow>
     'a InjectorBridgeHandler_scheme outcome option" where
  "InjectorBridgeHandler_while env origin msg st =
     (case msg of
        None \<Rightarrow> Some (Returned st)
      | Some m \<Rightarrow>
          (case protocol_msg_from_id env (msg_id m) of
             Some msgType \<Rightarrow>
               (case InjectorBridgeHandler_known env origin msgType m st of
                  Raised e st' \<Rightarrow> Some (Raised e st')
                | Returned st' \<Rightarrow>
                    (case fetch env origin st' of
                       (msg', st'') \<Rightarrow> InjectorBridgeHandler_while env origin msg' st''))
           | None \<Rightarrow> InjectorBridgeHandler_while env origin (Some m) st))"

declare InjectorBridgeHandler_while.simps [code]

text \<open>\<^verbatim>\<open>InjectorBridgeHandler.handle\<close> (lines 205-250).\<close>

definition InjectorBridgeHandler_handle ::
  "env \<Rightarrow> bytes \<Rightarrow> conn \<Rightarrow> 'a InjectorBridgeHandler_scheme \<Rightarrow>
     'a InjectorBridgeHandler_scheme outcome option" where
  "InjectorBridgeHandler_handle env data origin st =
     (case fetch env origin (buf_append origin data (sendall (other origin) data st)) of
        (msg, st') \<Rightarrow> InjectorBridgeHandler_while env origin msg st')"

section \<open>\<^verbatim>\<open>LucInjector\<close>\<close>

text \<open>
  \<open>clock\<close> counts the calls of \<^verbatim>\<open>time.time()\<close> made so far. \<^verbatim>\<open>self.items\<close> is a literal
  list of item ids in the source; it is a parameter here.
\<close>

record LucInjector = sequenced +
  injections :: int
  script :: string
  items :: "int list"
  itemsleft :: "int option list"
  timer :: real
  clock :: nat

definition LucInjector_init :: "env \<Rightarrow> int list \<Rightarrow> LucInjector" where
  "LucInjector_init env its =
     \<lparr>sent = (\<lambda>c. []), buf = (\<lambda>c. []), injected_to_server = 0, counter = 0,
      injections = 0, script = ''off'', items = its,
      itemsleft = replicate (length its) None, timer = time_time env 0, clock = 1\<rparr>"

text \<open>
  Lines 354-356 and 396-398:
  \<^verbatim>\<open>self.itemsleft = [None] * len(self.items)\<close>, then
  \<^verbatim>\<open>for i in range(0, len(self.items)): self.itemsleft[i] = self.items[i]\<close>.
\<close>

definition refill :: "int list \<Rightarrow> int option list" where
  "refill its =
     foldl (\<lambda>l i. l[i := Some (its ! i)]) (replicate (length its) None) [0..<length its]"

definition ask_item_price :: "env \<Rightarrow> int option \<Rightarrow> 'a sequenced_scheme \<Rightarrow> 'a sequenced_scheme" where
  "ask_item_price env itemid st =
     send_to_server env
       (PMsg (Msg_from_json env
          (JDict [(''__type__'', JStr ''ExchangeBidHouseSearchMessage''),
                  (''genId'', (case itemid of None \<Rightarrow> JNull | Some i \<Rightarrow> JInt i)),
                  (''follow'', JBool True)]))) st"

definition disconnect_hdv :: "env \<Rightarrow> 'a sequenced_scheme \<Rightarrow> 'a sequenced_scheme" where
  "disconnect_hdv env st =
     send_to_server env
       (PMsg (Msg_from_json env (JDict [(''__type__'', JStr ''LeaveDialogRequestMessage'')]))) st"

definition connect_hdv :: "env \<Rightarrow> 'a sequenced_scheme \<Rightarrow> 'a sequenced_scheme" where
  "connect_hdv env st =
     send_to_server env
       (PMsg (Msg_from_json env
          (JDict [(''__type__'', JStr ''InteractiveUseRequestMessage''),
                  (''elemId'', JInt 522694), (''skillInstanceUid'', JInt 136144973)]))) st"

text \<open>The first part of \<^verbatim>\<open>LucInjector.handle_message\<close> (lines 352-368).\<close>

definition pacing :: "env \<Rightarrow> 'a LucInjector_scheme \<Rightarrow> 'a LucInjector_scheme" where
  "pacing env st =
     (if script st = ''on'' then
        (if length (itemsleft st) = 0 then st\<lparr>itemsleft := refill (items st)\<rparr>
         else
           (let datenow = time_time env (clock st);
                st1 = st\<lparr>clock := clock st + 1\<rparr>;
                diff = datenow - timer st1
            in if diff > 0.8 then
                 (let st2 =
                        (if injections st1 mod 3 = 2
                         then connect_hdv env (disconnect_hdv env st1)
                         else (ask_item_price env (last (itemsleft st1))
                                 (st1\<lparr>itemsleft := butlast (itemsleft st1)\<rparr>))\<lparr>timer := datenow\<rparr>)
                  in st2\<lparr>injections := injections st2 + 1\<rparr>)
               else st1))
      else st)"

definition masked :: "string list" where
  "masked =
     [''GameMapMovementMessage'', ''SetCharacterRestrictionsMessage'',
      ''GameContextRefreshEntityLookMessage'', ''GameRolePlayShowActorMessage'',
      ''GameMapChangeOrientationMessage'', ''UpdateMapPlayersAgressableStatusMessage'',
      ''GameContextRemoveElementMessage'', ''ChatServerMessage'',
      ''ChatServerWithObjectMessage'']"

text \<open>
  Lines 377-383: the item id and the three prices of the first description, or \<open>None\<close>
  when \<^verbatim>\<open>itemTypeDescriptions\<close> is empty.
\<close>

definition price_report :: "json \<Rightarrow> error + (json \<times> json list) option" where
  "price_report msg =
     bind_err (getitem msg ''itemTypeDescriptions'') (\<lambda>ds.
     bind_err (len ds) (\<lambda>n.
       if n > 0 then
         bind_err (getindex ds 0) (\<lambda>d0.
         bind_err (getitem d0 ''objectGID'') (\<lambda>itemID.
         bind_err (getitem d0 ''prices'') (\<lambda>pricesArray.
         bind_err (getindex pricesArray 0) (\<lambda>p0.
         bind_err (getindex pricesArray 1) (\<lambda>p1.
         bind_err (getindex pricesArray 2) (\<lambda>p2.
           Inr (Some (itemID, [p0, p1, p2]))))))))
       else Inr None))"

text \<open>The second part of \<^verbatim>\<open>LucInjector.handle_message\<close> (lines 370-399).\<close>

definition inspect ::
  "env \<Rightarrow> json \<Rightarrow> conn \<Rightarrow> 'a LucInjector_scheme \<Rightarrow> 'a LucInjector_scheme outcome" where
  "inspect env msg origin st =
     (case getitem msg ''__type__'' of
        Inl e \<Rightarrow> Raised e st
      | Inr t \<Rightarrow>
          if t \<notin> set (map JStr masked) \<or> getpeername_local env origin then
            (if t = JStr ''ExchangeTypesItemsExchangerDescriptionForUserMessage'' then
               (case price_report msg of
                  Inl e \<Rightarrow> Raised e st
                | Inr None \<Rightarrow> Returned st
                | Inr (Some (itemID, prices)) \<Rightarrow>
                    (case requests_get env itemID prices of
                       Some e \<Rightarrow> Raised e st
                     | None \<Rightarrow> Returned st))
             else if t = JStr ''ChatClientMultiMessage'' then
               (case getitem msg ''content'' of
                  Inl e \<Rightarrow> Raised e st
                | Inr content \<Rightarrow>
                    if content = JStr ''stop'' then
                      Returned (send_message env ''stooooooop'' (st\<lparr>script := ''off''\<rparr>))
                    else if content = JStr ''lessgo'' then
                      Returned (send_message env ''gooooooooo''
                        (st\<lparr>script := ''on'', timer := time_time env (clock st),
                            clock := clock st + 1, itemsleft := refill (items st)\<rparr>))
                    else Returned st)
             else Returned st)
          else Returned st)"

text \<open>\<^verbatim>\<open>LucInjector.handle_message\<close> (lines 350-399).\<close>

definition LucInjector_handle_message ::
  "env \<Rightarrow> json \<Rightarrow> conn \<Rightarrow> 'a LucInjector_scheme \<Rightarrow> 'a LucInjector_scheme outcome" where
  "LucInjector_handle_message env msg origin st = inspect env msg origin (pacing env st)"

text \<open>
  \<^verbatim>\<open>LucInjector.handle\<close> (lines 328-347) repeats the statements of
  \<^verbatim>\<open>MsgBridgeHandler.handle\<close>, with \<^verbatim>\<open>LucInjector.handle_message\<close> as the callback.
\<close>

definition LucInjector_handle ::
  "env \<Rightarrow> bytes \<Rightarrow> conn \<Rightarrow> LucInjector \<Rightarrow> LucInjector outcome option" where
  "LucInjector_handle env data origin st =
     MsgBridgeHandler_handle env (LucInjector_handle_message env) data origin st"


section \<open>A concrete registry and wire format\<close>

text \<open>
  Modelled from the spec: \<^verbatim>\<open>Msg.fromRaw\<close>, \<^verbatim>\<open>Msg.bytes\<close>, \<^verbatim>\<open>Msg.from_json\<close>
  (\<^verbatim>\<open>labot/data\<close>) and \<^verbatim>\<open>protocol.msg_from_id\<close>, \<^verbatim>\<open>protocol.read\<close> (\<^verbatim>\<open>labot/protocol\<close>) are
  not part of \<^verbatim>\<open>bridge.py\<close>. The spec gives the wire shape
  \<^verbatim>\<open>[message id][sequence counter - client->server frames only][length-prefixed payload]\<close>
  and leaves the widths to the registry. This instance has one byte for each of the
  three header fields and a registry of three message types; a chat message is encoded
  with id 1, a search with id 5, the leave request with id 6 and the request to use an
  element with id 7. It is used to run the handlers on concrete chunks; the general
  theorems below hold for every \<open>env\<close>.
\<close>

fun demo_fromRaw :: "bytes \<Rightarrow> bool \<Rightarrow> (Msg \<times> bytes) option" where
  "demo_fromRaw (i # c # n # rest) True =
     (if unat n \<le> length rest
      then Some (\<lparr>msg_id = unat i, msg_data = take (unat n) rest, msg_count = Some (uint c)\<rparr>,
                 drop (unat n) rest)
      else None)"
| "demo_fromRaw (i # n # rest) False =
     (if unat n \<le> length rest
      then Some (\<lparr>msg_id = unat i, msg_data = take (unat n) rest, msg_count = None\<rparr>,
                 drop (unat n) rest)
      else None)"
| "demo_fromRaw _ _ = None"

definition demo_bytes :: "Msg \<Rightarrow> bytes" where
  "demo_bytes m =
     word_of_nat (msg_id m) # (case msg_count m of None \<Rightarrow> [] | Some c \<Rightarrow> [word_of_int c])
       @ word_of_nat (length (msg_data m)) # msg_data m"

definition demo_msg_from_id :: "nat \<Rightarrow> string option" where
  "demo_msg_from_id i =
     (if i = 1 then Some ''ChatClientMultiMessage''
      else if i = 2 then Some ''ExchangeTypesItemsExchangerDescriptionForUserMessage''
      else if i = 3 then Some ''BasicPongMessage''
      else None)"

text \<open>
  The chat message carries its content as characters; the price message carries an item
  id and three prices, or nothing; the pong message reads one flag byte and leaves the
  rest of its payload unread.
\<close>

definition demo_read :: "string \<Rightarrow> bytes \<Rightarrow> error + (json \<times> nat)" where
  "demo_read msgType data =
     (if msgType = ''ChatClientMultiMessage'' then
        Inr (JDict [(''__type__'', JStr msgType),
                    (''content'', JStr (map (\<lambda>b. char_of (unat b)) data)),
                    (''channel'', JInt 0)], 0)
      else if msgType = ''ExchangeTypesItemsExchangerDescriptionForUserMessage'' then
        (case data of
           [g, p0, p1, p2] \<Rightarrow>
             Inr (JDict [(''__type__'', JStr msgType),
                         (''itemTypeDescriptions'',
                            JList [JDict [(''objectGID'', JInt (uint g)),
                                          (''prices'', JList [JInt (uint p0), JInt (uint p1),
                                                              JInt (uint p2)])]])], 0)
         | _ \<Rightarrow> Inr (JDict [(''__type__'', JStr msgType), (''itemTypeDescriptions'', JList [])],
                     length data))
      else
        (case data of
           [] \<Rightarrow> Inl IndexError
         | q # rest \<Rightarrow>
             Inr (JDict [(''__type__'', JStr msgType), (''quiet'', JBool (q \<noteq> 0))],
                  length rest)))"

definition demo_from_json :: "json \<Rightarrow> Msg" where
  "demo_from_json j =
     (case getitem j ''__type__'' of
        Inr (JStr t) \<Rightarrow>
          if t = ''ChatClientMultiMessage'' then
            (case getitem j ''content'' of
               Inr (JStr s) \<Rightarrow>
                 \<lparr>msg_id = 1, msg_data = map (\<lambda>c. word_of_nat (of_char c)) s, msg_count = None\<rparr>
             | _ \<Rightarrow> \<lparr>msg_id = 1, msg_data = [], msg_count = None\<rparr>)
          else if t = ''ExchangeBidHouseSearchMessage'' then
            (case getitem j ''genId'' of
               Inr (JInt i) \<Rightarrow> \<lparr>msg_id = 5, msg_data = [word_of_int i], msg_count = None\<rparr>
             | _ \<Rightarrow> \<lparr>msg_id = 5, msg_data = [], msg_count = None\<rparr>)
          else if t = ''LeaveDialogRequestMessage'' then
            \<lparr>msg_id = 6, msg_data = [], msg_count = None\<rparr>
          else \<lparr>msg_id = 7, msg_data = [], msg_count = None\<rparr>
      | _ \<Rightarrow> \<lparr>msg_id = 0, msg_data = [], msg_count = None\<rparr>)"

definition demo_env :: env where
  "demo_env =
     \<lparr>Msg_fromRaw = demo_fromRaw, protocol_msg_from_id = demo_msg_from_id,
      protocol_read = demo_read, Msg_bytes = demo_bytes, Msg_from_json = demo_from_json,
      requests_get = (\<lambda>itemID prices. None), getpeername_local = (\<lambda>c. c = CoJeu),
      time_time = (\<lambda>k. real k)\<rparr>"

text \<open>The same, with a reporting endpoint that cannot be reached.\<close>

definition demo_env_unreachable :: env where
  "demo_env_unreachable =
     demo_env\<lparr>requests_get := (\<lambda>itemID prices. Some (OtherError ''ConnectionError''))\<rparr>"

text \<open>A dumper whose \<^verbatim>\<open>dump\<close> raises.\<close>

definition failing_dumper :: "Msg \<Rightarrow> error option" where
  "failing_dumper m = Some (OtherError ''OSError'')"

section \<open>Vocabulary of the properties\<close>

text \<open>
  \<open>parses env from_client b ms rest\<close>: repeated \<^verbatim>\<open>Msg.fromRaw\<close> on the buffer \<open>b\<close> yields
  the messages \<open>ms\<close> in this order and then fails, leaving \<open>rest\<close>.
\<close>

fun parses :: "env \<Rightarrow> bool \<Rightarrow> bytes \<Rightarrow> Msg list \<Rightarrow> bytes \<Rightarrow> bool" where
  "parses env fc b [] rest = (Msg_fromRaw env b fc = None \<and> rest = b)"
| "parses env fc b (m # ms) rest =
     (case Msg_fromRaw env b fc of
        None \<Rightarrow> False
      | Some (m', b') \<Rightarrow> m' = m \<and> parses env fc b' ms rest)"

text \<open>
  \<open>decodes env ok m\<close>: the id of \<open>m\<close> is in the registry and \<^verbatim>\<open>protocol.read\<close> returns,
  leaving a number of unread bytes that is in \<open>ok\<close>.
\<close>

definition decodes :: "env \<Rightarrow> nat set \<Rightarrow> Msg \<Rightarrow> bool" where
  "decodes env ok m =
     (case protocol_msg_from_id env (msg_id m) of
        None \<Rightarrow> False
      | Some t \<Rightarrow>
          (case protocol_read env t (msg_data m) of
             Inl e \<Rightarrow> False
           | Inr (parsedMsg, remaining) \<Rightarrow> remaining \<in> ok))"

text \<open>\<open>dump_ok d m\<close>: there is no dumper, or \<^verbatim>\<open>dumper.dump(m)\<close> returns.\<close>

definition dump_ok :: "(Msg \<Rightarrow> error option) option \<Rightarrow> Msg \<Rightarrow> bool" where
  "dump_ok d m = (case d of None \<Rightarrow> True | Some f \<Rightarrow> f m = None)"

text \<open>Every message that \<^verbatim>\<open>Msg.fromRaw\<close> returns takes at least one byte off the buffer.\<close>

definition consuming :: "env \<Rightarrow> bool" where
  "consuming env =
     (\<forall>b fc m rest. Msg_fromRaw env b fc = Some (m, rest) \<longrightarrow> length rest < length b)"

section \<open>The relay loop releases both connections\<close>

lemma close_calls_close_all: "close_calls (close_all s) c = close_calls s c + 1"
  by (cases c) (simp_all add: close_all_def conns_def close_def)

lemma close_all_keeps:
  "policy (close_all s) = policy s" "delivered (close_all s) = delivered s"
  by (simp_all add: close_all_def conns_def close_def)

lemma for_rlist_close_calls:
  "for_rlist handle rl s = Some r \<Longrightarrow> close_calls (for_session r) = close_calls s"
proof (induction rl arbitrary: s)
  case Nil
  then show ?case by auto
next
  case (Cons a rl)
  obtain c rr where a: "a = (c, rr)" by (cases a)
  show ?case
  proof (cases rr)
    case (Recv data)
    show ?thesis
    proof (cases "data = []")
      case True
      with Cons.prems a Recv show ?thesis by auto
    next
      case False
      show ?thesis
      proof (cases "handle data c (policy s)")
        case None
        with Cons.prems a Recv False show ?thesis by simp
      next
        case (Some out)
        show ?thesis
        proof (cases out)
          case (Returned p)
          with Cons.prems a Recv False Some
          have "for_rlist handle rl (s\<lparr>policy := p, delivered := delivered s @ [(data, c)]\<rparr>)
                = Some r"
            by simp
          from Cons.IH [OF this] show ?thesis by simp
        next
          case (Raised e p)
          with Cons.prems a Recv False Some show ?thesis by auto
        qed
      qed
    qed
  next
    case (RecvRaises e)
    with Cons.prems a show ?thesis by auto
  qed
qed

lemma while_active_close_calls:
  "while_active handle evs s = Some r \<Longrightarrow> close_calls (session_of r) = close_calls s"
proof (induction evs arbitrary: s)
  case Nil
  then show ?case by auto
next
  case (Cons ev evs)
  show ?case
  proof (cases ev)
    case (SelectRaises e)
    with Cons.prems show ?thesis by auto
  next
    case (Select rlist xlist)
    show ?thesis
    proof (cases "xlist \<noteq> [] \<or> rlist = []")
      case True
      with Cons.prems Select show ?thesis by auto
    next
      case False
      then obtain fr where fr: "for_rlist handle rlist s = Some fr"
        using Cons.prems Select by (cases "for_rlist handle rlist s") auto
      from for_rlist_close_calls [OF fr] have c: "close_calls (for_session fr) = close_calls s" .
      show ?thesis
      proof (cases fr)
        case (Completed s')
        with Cons.prems Select False fr have "while_active handle evs s' = Some r" by simp
        from Cons.IH [OF this] c Completed show ?thesis by simp
      next
        case (Break s')
        with Cons.prems Select False fr c show ?thesis by auto
      next
        case (ForRaised e s')
        with Cons.prems Select False fr c show ?thesis by auto
      qed
    qed
  qed
qed

lemma loop_close_calls:
  assumes "loop handle evs s = Some r"
  shows "close_calls (session_of r) c =
         (if exited r then close_calls s c + 1 else close_calls s c)"
proof -
  from assms obtain r0
    where r0: "while_active handle evs s = Some r0" and r: "r = finally_block r0"
    by (auto simp: loop_def)
  from while_active_close_calls [OF r0] have "close_calls (session_of r0) = close_calls s" .
  with r show ?thesis by (cases r0) (simp_all add: close_calls_close_all)
qed

lemma for_rlist_zero_read:
  "for_rlist handle (pre @ (c, Recv []) # post) s = for_rlist handle (pre @ [(c, Recv [])]) s"
proof (induction pre arbitrary: s)
  case Nil
  show ?case by simp
next
  case (Cons a pre)
  obtain c' rr where a: "a = (c', rr)" by (cases a)
  show ?case
  proof (cases rr)
    case (Recv data)
    then show ?thesis using a Cons.IH
      by (simp split: option.split outcome.split)
  next
    case (RecvRaises e)
    with a show ?thesis by simp
  qed
qed

lemma for_rlist_zero_read_not_completed:
  "for_rlist handle (pre @ (c, Recv []) # post) s \<noteq> Some (Completed s')"
proof (induction pre arbitrary: s)
  case Nil
  show ?case by simp
next
  case (Cons a pre)
  obtain c' rr where a: "a = (c', rr)" by (cases a)
  show ?case
  proof (cases rr)
    case (Recv data)
    then show ?thesis using a Cons.IH
      by (simp split: option.split outcome.split)
  next
    case (RecvRaises e)
    with a show ?thesis by simp
  qed
qed

lemma while_active_zero_read:
  "while_active handle (Select (pre @ (c, Recv []) # post) [] # evs) s =
   while_active handle [Select (pre @ [(c, Recv [])]) []] s"
proof (cases "for_rlist handle (pre @ (c, Recv []) # post) s")
  case None
  then show ?thesis using for_rlist_zero_read [of handle pre c post s] by simp
next
  case (Some fr)
  then have eq: "for_rlist handle (pre @ [(c, Recv [])]) s = Some fr"
    using for_rlist_zero_read [of handle pre c post s] by simp
  show ?thesis
  proof (cases fr)
    case (Completed s')
    with Some for_rlist_zero_read_not_completed [of handle pre c post s s'] show ?thesis
      by simp
  next
    case (Break s')
    with Some eq show ?thesis by simp
  next
    case (ForRaised e s')
    with Some eq show ?thesis by simp
  qed
qed

lemma loop_handle_raises:
  assumes "data \<noteq> []" and "handle data c (policy s) = Some (Raised e p)"
  shows "loop handle (Select ((c, Recv data) # post) [] # evs) s =
         Some (Propagated e
           (close_all (s\<lparr>policy := p, delivered := delivered s @ [(data, c)]\<rparr>)))"
  using assms by (simp add: loop_def)

text \<open>
  C5. Whenever \<^verbatim>\<open>loop\<close> exits, \<^verbatim>\<open>close\<close> has been called exactly once more on each of the
  two sockets, and while it has not exited no socket was closed. The loop exits when
  \<^verbatim>\<open>select\<close> reports an exceptional socket or no readable one, when a \<^verbatim>\<open>recv\<close> returns
  no bytes, and when \<^verbatim>\<open>handle\<close> raises (the error then propagates). After a \<^verbatim>\<open>recv\<close>
  that returns no bytes, what the other readable sockets of that \<^verbatim>\<open>select\<close> hold, and
  every later \<^verbatim>\<open>select\<close>, have no effect: the run is the run that ends at this read.
\<close>

theorem loop_closes_both_connections_once:
  "(loop handle evs s = Some r \<longrightarrow>
      close_calls (session_of r) k = (if exited r then close_calls s k + 1 else close_calls s k))
   \<and> (xlist \<noteq> [] \<or> rlist = [] \<longrightarrow>
        loop handle (Select rlist xlist # evs) s = Some (Finished (close_all s)))
   \<and> loop handle (Select ((c, Recv []) # post) [] # evs) s = Some (Finished (close_all s))
   \<and> (data \<noteq> [] \<and> handle data c (policy s) = Some (Raised e p) \<longrightarrow>
        loop handle (Select ((c, Recv data) # post) [] # evs) s =
          Some (Propagated e
            (close_all (s\<lparr>policy := p, delivered := delivered s @ [(data, c)]\<rparr>))))
   \<and> loop handle (Select (pre @ (c, Recv []) # post) [] # evs) s =
       loop handle [Select (pre @ [(c, Recv [])]) []] s"
proof (intro conjI impI)
  assume "loop handle evs s = Some r"
  then show "close_calls (session_of r) k =
               (if exited r then close_calls s k + 1 else close_calls s k)"
    by (rule loop_close_calls)
next
  assume "xlist \<noteq> [] \<or> rlist = []"
  then show "loop handle (Select rlist xlist # evs) s = Some (Finished (close_all s))"
    by (auto simp: loop_def)
next
  show "loop handle (Select ((c, Recv []) # post) [] # evs) s = Some (Finished (close_all s))"
    by (simp add: loop_def)
next
  assume a: "data \<noteq> [] \<and> handle data c (policy s) = Some (Raised e p)"
  from a have d: "data \<noteq> []" ..
  from a have h: "handle data c (policy s) = Some (Raised e p)" ..
  from d h show "loop handle (Select ((c, Recv data) # post) [] # evs) s =
          Some (Propagated e
            (close_all (s\<lparr>policy := p, delivered := delivered s @ [(data, c)]\<rparr>)))"
    by (rule loop_handle_raises)
next
  show "loop handle (Select (pre @ (c, Recv []) # post) [] # evs) s =
        loop handle [Select (pre @ [(c, Recv [])]) []] s"
    unfolding loop_def by (rule arg_cong [OF while_active_zero_read])
qed

theorem loop_closes_both_connections_once_witness:
  "(\<exists>r. loop (\<lambda>d c p. if d = [255] then Some (Raised AssertionError p)
                        else Some (Returned (DummyBridgeHandler_handle d c p)))
            [Select [(CoJeu, Recv [65, 66])] [], Select [(CoJeu, Recv [67, 68])] [],
             Select [(CoJeu, Recv []), (CoSer, Recv [1])] [], Select [(CoSer, Recv [2])] []]
            (new_session \<lparr>sent = (\<lambda>c. [])\<rparr>) = Some r
        \<and> exited r
        \<and> close_calls (session_of r) CoJeu = 1 \<and> close_calls (session_of r) CoSer = 1
        \<and> delivered (session_of r) = [([65, 66], CoJeu), ([67, 68], CoJeu)]
        \<and> sent (policy (session_of r)) CoSer = [[65, 66], [67, 68]]
        \<and> sent (policy (session_of r)) CoJeu = [])
   \<and> (\<exists>r. loop (\<lambda>d c p. if d = [255] then Some (Raised AssertionError p)
                        else Some (Returned (DummyBridgeHandler_handle d c p)))
            [Select [(CoJeu, Recv [255]), (CoSer, Recv [1])] [], Select [(CoSer, Recv [2])] []]
            (new_session \<lparr>sent = (\<lambda>c. [])\<rparr>) = Some r
        \<and> propagated r = Some AssertionError
        \<and> close_calls (session_of r) CoJeu = 1 \<and> close_calls (session_of r) CoSer = 1
        \<and> delivered (session_of r) = [([255], CoJeu)])
   \<and> (\<exists>r. loop (\<lambda>d c p. if d = [255] then Some (Raised AssertionError p)
                        else Some (Returned (DummyBridgeHandler_handle d c p)))
            [Select [(CoJeu, Recv [65])] [CoSer], Select [(CoSer, Recv [2])] []]
            (new_session \<lparr>sent = (\<lambda>c. [])\<rparr>) = Some r
        \<and> exited r
        \<and> close_calls (session_of r) CoJeu = 1 \<and> close_calls (session_of r) CoSer = 1
        \<and> delivered (session_of r) = [])"
proof -
  let ?h = "\<lambda>d c p. if d = [255::byte] then Some (Raised AssertionError p)
                        else Some (Returned (DummyBridgeHandler_handle d c (p::sockets)))"
  let ?s = "new_session \<lparr>sent = (\<lambda>c. [])\<rparr>"
  let ?evs = "[Select [(CoJeu, Recv [65, 66])] [], Select [(CoJeu, Recv [67, 68])] [],
             Select [(CoJeu, Recv []), (CoSer, Recv [1])] [], Select [(CoSer, Recv [2])] []]"
  obtain r where r: "loop ?h ?evs ?s = Some r"
    by (simp add: loop_def)
  have r2: "delivered (session_of r) = [([65, 66], CoJeu), ([67, 68], CoJeu)]
        \<and> sent (policy (session_of r)) CoSer = [[65, 66], [67, 68]]
        \<and> sent (policy (session_of r)) CoJeu = [] \<and> exited r"
    using r by (auto simp: loop_def new_session_def close_all_keeps DummyBridgeHandler_handle_def sendall_def)
  note t = loop_closes_both_connections_once
  have c1: "close_calls (session_of r) CoJeu = 1 \<and> close_calls (session_of r) CoSer = 1"
    using t [where handle = ?h and evs = ?evs and s = ?s and r = r and k = CoJeu]
      t [where handle = ?h and evs = ?evs and s = ?s and r = r and k = CoSer] r r2
    by (simp add: new_session_def)
  have c2: "loop ?h [Select [(CoJeu, Recv [255]), (CoSer, Recv [1])] [], Select [(CoSer, Recv [2])] []] ?s
     = Some (Propagated AssertionError (close_all (?s\<lparr>policy := policy ?s, delivered := delivered ?s @ [([255], CoJeu)]\<rparr>)))"
    using t [where handle = ?h and s = ?s and c = CoJeu and post = "[(CoSer, Recv [1])]"
        and evs = "[Select [(CoSer, Recv [2])] []]" and data = "[255]" and e = AssertionError
        and p = "policy ?s"]
    by simp
  have c3: "loop ?h [Select [(CoJeu, Recv [65])] [CoSer], Select [(CoSer, Recv [2])] []] ?s = Some (Finished (close_all ?s))"
    using t [where handle = ?h and s = ?s and xlist = "[CoSer]" and rlist = "[(CoJeu, Recv [65])]"
        and evs = "[Select [(CoSer, Recv [2])] []]"]
    by simp
  show ?thesis
    apply (intro conjI)
    subgoal using r r2 c1 by blast
    subgoal using c2 by (simp add: close_calls_close_all close_all_keeps new_session_def)
    subgoal using c3 by (simp add: close_calls_close_all close_all_keeps new_session_def)
    done
qed

section \<open>\<^verbatim>\<open>InjectorBridgeHandler.handle\<close>: what is sent and what is recorded\<close>

text \<open>
  An induction rule for the runs of the loop that return: the loop stops when no message
  is left, stops when the branch of a known message raises, or goes on with the message
  fetched next. (A run that takes the \<^verbatim>\<open>else\<close> branch does not return.)
\<close>
lemma InjectorBridgeHandler_while_induct [consumes 1, case_names Stop Raise Next]:
  assumes run: "InjectorBridgeHandler_while env origin msg st = Some r"
    and stop: "\<And>st. Q None st (Returned st)"
    and raise: "\<And>m t st e st'. protocol_msg_from_id env (msg_id m) = Some t \<Longrightarrow>
        InjectorBridgeHandler_known env origin t m st = Raised e st' \<Longrightarrow>
        Q (Some m) st (Raised e st')"
    and nxt: "\<And>m t st st' msg' st'' r. protocol_msg_from_id env (msg_id m) = Some t \<Longrightarrow>
        InjectorBridgeHandler_known env origin t m st = Returned st' \<Longrightarrow>
        fetch env origin st' = (msg', st'') \<Longrightarrow>
        Q msg' st'' r \<Longrightarrow> Q (Some m) st r"
  shows "Q msg st r"
proof -
  have "env = env \<and> origin = origin \<longrightarrow> Q msg st r"
  proof (rule InjectorBridgeHandler_while.raw_induct
      [where P = "\<lambda>env' origin' msg st r. env' = env \<and> origin' = origin \<longrightarrow> Q msg st r",
       OF _ run])
    fix loop :: "env \<Rightarrow> conn \<Rightarrow> Msg option \<Rightarrow> 'a InjectorBridgeHandler_scheme \<Rightarrow>
       'a InjectorBridgeHandler_scheme outcome option"
    fix env' origin' msg st r
    assume IH: "\<And>env' origin' msg st r. loop env' origin' msg st = Some r \<Longrightarrow>
       env' = env \<and> origin' = origin \<longrightarrow> Q msg st r"
    assume eq: "(case msg of
          None \<Rightarrow> Some (Returned st)
        | Some m \<Rightarrow>
            (case protocol_msg_from_id env' (msg_id m) of
               None \<Rightarrow> loop env' origin' (Some m) st
             | Some msgType \<Rightarrow>
                 (case InjectorBridgeHandler_known env' origin' msgType m st of
                    Returned st' \<Rightarrow>
                      (case fetch env' origin' st' of
                         (msg', st'') \<Rightarrow> loop env' origin' msg' st'')
                  | Raised e st' \<Rightarrow> Some (Raised e st')))) = Some r"
    show "env' = env \<and> origin' = origin \<longrightarrow> Q msg st r"
    proof
      assume same: "env' = env \<and> origin' = origin"
      show "Q msg st r"
      proof (cases msg)
        case None
        with eq stop show ?thesis by auto
      next
        case (Some m)
        note msg = this
        show ?thesis
        proof (cases "protocol_msg_from_id env (msg_id m)")
          case None
          with eq msg same have "loop env origin (Some m) st = Some r" by simp
          from IH [OF this] msg show ?thesis by simp
        next
          case (Some t)
          note t = this
          show ?thesis
          proof (cases "InjectorBridgeHandler_known env origin t m st")
            case (Raised e st')
            with eq msg same t have "r = Raised e st'" by simp
            with raise [OF t Raised] msg show ?thesis by simp
          next
            case (Returned st')
            obtain msg' st'' where f: "fetch env origin st' = (msg', st'')"
              by (cases "fetch env origin st'")
            with eq msg same t Returned have "loop env origin msg' st'' = Some r" by simp
            from IH [OF this] have "Q msg' st'' r" by simp
            from nxt [OF t Returned f this] msg show ?thesis by simp
          qed
        qed
      qed
    qed
  qed
  then show ?thesis by simp
qed

lemma fetch_keeps:
  "fetch env origin st = (msg, st') \<Longrightarrow> sent st' = sent st"
  by (auto simp: fetch_def split: option.splits)

lemma fetch_keeps_sequenced:
  "fetch env origin st = (msg, st') \<Longrightarrow>
     injected_to_server st' = injected_to_server st \<and> counter st' = counter st"
  by (auto simp: fetch_def split: option.splits)

lemma fetch_keeps_injector:
  "fetch env origin st = (msg, st') \<Longrightarrow>
     injected_to_client st' = injected_to_client st \<and> db st' = db st \<and>
     db_size st' = db_size st \<and> dumper st' = dumper st"
  by (auto simp: fetch_def split: option.splits)

lemma known_keeps:
  "sent (state_of (InjectorBridgeHandler_known env origin t m st)) = sent st \<and>
   buf (state_of (InjectorBridgeHandler_known env origin t m st)) = buf st \<and>
   injected_to_server (state_of (InjectorBridgeHandler_known env origin t m st)) = injected_to_server st \<and>
   injected_to_client (state_of (InjectorBridgeHandler_known env origin t m st)) = injected_to_client st \<and>
   db_size (state_of (InjectorBridgeHandler_known env origin t m st)) = db_size st \<and>
   dumper (state_of (InjectorBridgeHandler_known env origin t m st)) = dumper st"
  by (simp add: InjectorBridgeHandler_known_def Let_def InjectorBridgeHandler_handle_message_def
      split: sum.split option.split prod.split)

lemma InjectorBridgeHandler_while_keeps:
  assumes "InjectorBridgeHandler_while env origin msg st = Some r"
  shows "sent (state_of r) = sent st \<and>
         injected_to_server (state_of r) = injected_to_server st \<and>
         injected_to_client (state_of r) = injected_to_client st"
  using assms
proof (induction rule: InjectorBridgeHandler_while_induct)
  case (Stop st)
  show ?case by simp
next
  case (Raise m t st e st')
  from known_keeps [of env origin t m st] Raise show ?case by simp
next
  case (Next m t st st' msg' st'' r)
  from known_keeps [of env origin t m st] Next(2) fetch_keeps [OF Next(3)]
    fetch_keeps_sequenced [OF Next(3)] fetch_keeps_injector [OF Next(3)] Next(4)
  show ?case by simp
qed

lemma InjectorBridgeHandler_handle_forwards:
  assumes "InjectorBridgeHandler_handle env data origin st = Some r"
  shows "sent (state_of r) = (sent st)(other origin := sent st (other origin) @ [data]) \<and>
         injected_to_server (state_of r) = injected_to_server st \<and>
         injected_to_client (state_of r) = injected_to_client st"
proof -
  obtain msg st' where f: "fetch env origin (buf_append origin data (sendall (other origin) data st)) = (msg, st')"
    by (cases "fetch env origin (buf_append origin data (sendall (other origin) data st))")
  with assms have w: "InjectorBridgeHandler_while env origin msg st' = Some r"
    by (simp add: InjectorBridgeHandler_handle_def)
  from InjectorBridgeHandler_while_keeps [OF w] fetch_keeps [OF f] fetch_keeps_sequenced [OF f]
    fetch_keeps_injector [OF f]
  show ?thesis by (simp add: buf_append_def sendall_def)
qed

section \<open>Messages whose id is not in the registry\<close>

lemma InjectorBridgeHandler_while_unknown:
  assumes "protocol_msg_from_id env (msg_id m) = None"
  shows "InjectorBridgeHandler_while env origin (Some m) st = None"
proof (cases "InjectorBridgeHandler_while env origin (Some m) st")
  case None
  then show ?thesis .
next
  case (Some r)
  then have "case Some m of None \<Rightarrow> True
             | Some m' \<Rightarrow> protocol_msg_from_id env (msg_id m') \<noteq> None"
    by (induction rule: InjectorBridgeHandler_while_induct) simp_all
  with assms show ?thesis by simp
qed

text \<open>
  C3. A chunk from the server that holds one complete frame whose id is not in the
  registry: \<^verbatim>\<open>InjectorBridgeHandler.handle\<close> does not return.
\<close>

theorem InjectorBridgeHandler_handle_unknown_id_diverges:
  "InjectorBridgeHandler_handle demo_env [9, 0] CoSer (InjectorBridgeHandler_init 100 None) = None"
  by (simp add: InjectorBridgeHandler_handle_def fetch_def buf_append_def sendall_def
      InjectorBridgeHandler_init_def demo_env_def InjectorBridgeHandler_while_unknown
      demo_msg_from_id_def)

text \<open>
  The loop of \<^verbatim>\<open>MsgBridgeHandler.handle\<close>, which \<^verbatim>\<open>LucInjector.handle\<close> repeats, fetches
  the next message after the \<^verbatim>\<open>if\<close>/\<^verbatim>\<open>else\<close>: a message with an unknown id is skipped, and
  the loop returns whenever \<^verbatim>\<open>Msg.fromRaw\<close> consumes what it returns and the callback does
  not grow the buffer.
\<close>

lemma MsgBridgeHandler_while_skips_unknown:
  assumes "protocol_msg_from_id env (msg_id m) = None"
  shows "MsgBridgeHandler_while env handle_message origin (Some m) st =
         (case fetch env origin st of
            (msg', st') \<Rightarrow> MsgBridgeHandler_while env handle_message origin msg' st')"
  using assms
  by (subst MsgBridgeHandler_while.simps) (simp add: MsgBridgeHandler_body_def)

lemma MsgBridgeHandler_while_terminates:
  assumes c: "consuming env"
    and hm: "\<And>p s. length (buf (state_of (handle_message p origin s)) origin) \<le> length (buf s origin)"
  shows "\<exists>r. MsgBridgeHandler_while env handle_message origin msg st = Some r"
proof (induction "length (buf st origin)" arbitrary: st msg rule: less_induct)
  case less
  show ?case
  proof (cases msg)
    case None
    then show ?thesis by (subst MsgBridgeHandler_while.simps) simp
  next
    case (Some m)
    show ?thesis
    proof (cases "MsgBridgeHandler_body env handle_message origin m st")
      case (Raised e st')
      with Some show ?thesis by (subst MsgBridgeHandler_while.simps) simp
    next
      case (Returned st')
      have le: "length (buf st' origin) \<le> length (buf st origin)"
      proof (cases "protocol_msg_from_id env (msg_id m)")
        case None
        with Returned show ?thesis by (simp add: MsgBridgeHandler_body_def)
      next
        case (Some t)
        with Returned hm [of _ st] show ?thesis
          by (auto simp: MsgBridgeHandler_body_def split: sum.splits prod.splits if_splits)
            (metis state_of.simps(1))
      qed
      show ?thesis
      proof (cases "Msg_fromRaw env (buf st' origin) (origin = CoJeu)")
        case None
        then have "fetch env origin st' = (None, st')" by (simp add: fetch_def)
        with Some Returned show ?thesis
          by (subst MsgBridgeHandler_while.simps)
            (simp, subst MsgBridgeHandler_while.simps, simp)
      next
        case (Some mr)
        obtain m' rest where mr: "mr = (m', rest)" by (cases mr)
        with Some c have "length rest < length (buf st' origin)"
          by (auto simp: consuming_def)
        with le have "length (buf (st'\<lparr>buf := (buf st')(origin := rest)\<rparr>) origin)
                       < length (buf st origin)"
          by simp
        from less [OF this, of "Some m'"]
        obtain r where "MsgBridgeHandler_while env handle_message origin (Some m')
                        (st'\<lparr>buf := (buf st')(origin := rest)\<rparr>) = Some r" ..
        moreover have "fetch env origin st' = (Some m', st'\<lparr>buf := (buf st')(origin := rest)\<rparr>)"
          using Some mr by (simp add: fetch_def)
        ultimately show ?thesis using \<open>msg = Some m\<close> Returned
          by (subst MsgBridgeHandler_while.simps) simp
      qed
    qed
  qed
qed

section \<open>Sequence counters in \<^verbatim>\<open>InjectorBridgeHandler\<close>\<close>

lemma known_client_frame:
  assumes "protocol_read env t (msg_data m) = Inr (parsedMsg, remaining)"
    and "remaining \<in> {0, 48}"
    and "msg_count m = Some c"
    and "dump_ok (dumper st)
           (m\<lparr>msg_count := Some (c + (injected_to_server st - injected_to_client st))\<rparr>)"
  shows "InjectorBridgeHandler_known env CoJeu t m st =
         Returned (st\<lparr>counter := c + (injected_to_server st - injected_to_client st),
                      db := deque_append (db_size st) (db st)
                        (m\<lparr>msg_count :=
                             Some (c + (injected_to_server st - injected_to_client st))\<rparr>)\<rparr>)"
  using assms
  by (auto simp: InjectorBridgeHandler_known_def InjectorBridgeHandler_handle_message_def
      dump_ok_def Let_def split: option.splits)

lemma known_server_frame:
  assumes "protocol_read env t (msg_data m) = Inr (parsedMsg, remaining)"
    and "remaining \<in> {0, 48}"
    and "dump_ok (dumper st) m"
  shows "InjectorBridgeHandler_known env CoSer t m st =
         Returned (st\<lparr>counter := counter st + 1,
                      db := deque_append (db_size st) (db st) m\<rparr>)"
  using assms
  by (auto simp: InjectorBridgeHandler_known_def InjectorBridgeHandler_handle_message_def
      dump_ok_def Let_def split: option.splits)

lemma send_to_server_fields:
  "sent (send_to_server env data st) CoJeu = sent st CoJeu"
  "injected_to_server (send_to_server env data st) = injected_to_server st + 1"
  "counter (send_to_server env data st) = counter st"
  "buf (send_to_server env data st) = buf st"
  "sent (send_to_server env (PMsg m) st) CoSer =
     sent st CoSer @ [Msg_bytes env (m\<lparr>msg_count := Some (counter st + 1)\<rparr>)]"
  "sent (send_to_server env (PBytes b) st) CoSer = sent st CoSer @ [b]"
  by (simp_all add: send_to_server_def sendall_def Let_def)

lemma send_to_server_injector_fields:
  "injected_to_client (send_to_server env data st) = injected_to_client st"
  "db (send_to_server env data st) = db st"
  "dumper (send_to_server env data st) = dumper st"
  by (simp_all add: send_to_server_def sendall_def Let_def)

lemma injections_offset:
  "injected_to_server (foldl (\<lambda>s d. send_to_server env d s) st ds)
     - injected_to_client (foldl (\<lambda>s d. send_to_server env d s) st ds)
   = injected_to_server st - injected_to_client st + int (length ds)"
  by (induction ds arbitrary: st)
    (simp_all add: send_to_server_fields send_to_server_injector_fields)

text \<open>
  C1 (as amended). \<^verbatim>\<open>InjectorBridgeHandler.handle\<close> sends the chunk it was given to the
  opposite socket as it is, and sends nothing else, so a frame of the client reaches the
  server with the counter the client gave it. What carries
  \<open>original + (injected_to_server - injected_to_client)\<close>, computed at that frame, is
  the message appended to \<^verbatim>\<open>self.db\<close> and given to the dumper, and \<^verbatim>\<open>self.counter\<close>.
  Each \<^verbatim>\<open>send_to_server\<close> adds one to the difference, so after \<open>k\<close> of them the recorded
  counter is \<open>k\<close> more.
\<close>

theorem client_frame_sent_raw_recorded_rewritten:
  "(InjectorBridgeHandler_handle env data origin st = Some r \<longrightarrow>
      sent (state_of r) = (sent st)(other origin := sent st (other origin) @ [data]))
   \<and> (protocol_read env t (msg_data m) = Inr (parsedMsg, remaining) \<and> remaining \<in> {0, 48}
        \<and> msg_count m = Some c
        \<and> dump_ok (dumper st')
             (m\<lparr>msg_count := Some (c + (injected_to_server st' - injected_to_client st'))\<rparr>) \<longrightarrow>
       InjectorBridgeHandler_known env CoJeu t m st' =
         Returned (st'\<lparr>counter := c + (injected_to_server st' - injected_to_client st'),
                       db := deque_append (db_size st') (db st')
                         (m\<lparr>msg_count :=
                              Some (c + (injected_to_server st' - injected_to_client st'))\<rparr>)\<rparr>))
   \<and> injected_to_server (foldl (\<lambda>s d. send_to_server env d s) st' ds)
         - injected_to_client (foldl (\<lambda>s d. send_to_server env d s) st' ds)
       = injected_to_server st' - injected_to_client st' + int (length ds)"
proof (intro conjI impI)
  assume "InjectorBridgeHandler_handle env data origin st = Some r"
  from InjectorBridgeHandler_handle_forwards [OF this]
  show "sent (state_of r) = (sent st)(other origin := sent st (other origin) @ [data])" ..
next
  assume a: "protocol_read env t (msg_data m) = Inr (parsedMsg, remaining) \<and> remaining \<in> {0, 48}
        \<and> msg_count m = Some c
        \<and> dump_ok (dumper st')
             (m\<lparr>msg_count := Some (c + (injected_to_server st' - injected_to_client st'))\<rparr>)"
  show "InjectorBridgeHandler_known env CoJeu t m st' =
         Returned (st'\<lparr>counter := c + (injected_to_server st' - injected_to_client st'),
                       db := deque_append (db_size st') (db st')
                         (m\<lparr>msg_count :=
                              Some (c + (injected_to_server st' - injected_to_client st'))\<rparr>)\<rparr>)"
    using a by (intro known_client_frame [of env t m parsedMsg remaining c st']) blast+
next
  show "injected_to_server (foldl (\<lambda>s d. send_to_server env d s) st' ds)
         - injected_to_client (foldl (\<lambda>s d. send_to_server env d s) st' ds)
       = injected_to_server st' - injected_to_client st' + int (length ds)"
    by (rule injections_offset)
qed

text \<open>
  C2 (as amended). \<^verbatim>\<open>send_to_server\<close> with a \<^verbatim>\<open>Msg\<close> sends the message with its counter set
  to \<^verbatim>\<open>self.counter + 1\<close>, adds one to \<^verbatim>\<open>self.injected_to_server\<close> and leaves
  \<^verbatim>\<open>self.counter\<close> as it was.
\<close>

theorem send_to_server_assigns_counter_plus_one:
  "sent (send_to_server env (PMsg m) st) CoSer =
     sent st CoSer @ [Msg_bytes env (m\<lparr>msg_count := Some (counter st + 1)\<rparr>)]
   \<and> sent (send_to_server env (PMsg m) st) CoJeu = sent st CoJeu
   \<and> injected_to_server (send_to_server env (PMsg m) st) = injected_to_server st + 1
   \<and> counter (send_to_server env (PMsg m) st) = counter st"
  by (simp add: send_to_server_fields)

theorem send_to_server_keeps_counter_counterexample:
  "counter (send_to_server demo_env
              (PMsg \<lparr>msg_id = 1, msg_data = [104, 105], msg_count = None\<rparr>)
              (InjectorBridgeHandler_init 100 None)) = 0
   \<and> sent (send_to_server demo_env
              (PMsg \<lparr>msg_id = 1, msg_data = [104, 105], msg_count = None\<rparr>)
              (InjectorBridgeHandler_init 100 None)) CoSer = [[1, 1, 2, 104, 105]]
   \<and> counter (send_to_server demo_env
              (PMsg \<lparr>msg_id = 1, msg_data = [104, 105], msg_count = None\<rparr>)
              (InjectorBridgeHandler_init 100 None))
       \<noteq> counter (InjectorBridgeHandler_init 100 None) + 1"
  by (simp add: send_to_server_fields InjectorBridgeHandler_init_def demo_env_def demo_bytes_def)

lemmas demo_run =
  InjectorBridgeHandler_handle_def InjectorBridgeHandler_while.simps fetch_def buf_append_def
  sendall_def InjectorBridgeHandler_init_def demo_env_def demo_msg_from_id_def demo_read_def
  InjectorBridgeHandler_known_def deque_append_def InjectorBridgeHandler_handle_message_def
  send_to_server_def demo_bytes_def dump_ok_def Let_def

theorem client_frame_sent_raw_recorded_rewritten_witness:
  "(\<exists>r. InjectorBridgeHandler_handle demo_env [1, 2, 0] CoJeu
           (send_to_server demo_env (PBytes [7]) (InjectorBridgeHandler_init 100 None)) = Some r
        \<and> sent (state_of r) CoSer = [[7], [1, 2, 0]] \<and> sent (state_of r) CoJeu = [])
   \<and> raised (InjectorBridgeHandler_known demo_env CoJeu ''ChatClientMultiMessage''
         \<lparr>msg_id = 1, msg_data = [], msg_count = Some 2\<rparr>
         (send_to_server demo_env (PBytes [7]) (InjectorBridgeHandler_init 100 None))) = None
   \<and> counter (state_of (InjectorBridgeHandler_known demo_env CoJeu ''ChatClientMultiMessage''
         \<lparr>msg_id = 1, msg_data = [], msg_count = Some 2\<rparr>
         (send_to_server demo_env (PBytes [7]) (InjectorBridgeHandler_init 100 None)))) = 3
   \<and> db (state_of (InjectorBridgeHandler_known demo_env CoJeu ''ChatClientMultiMessage''
         \<lparr>msg_id = 1, msg_data = [], msg_count = Some 2\<rparr>
         (send_to_server demo_env (PBytes [7]) (InjectorBridgeHandler_init 100 None))))
       = [\<lparr>msg_id = 1, msg_data = [], msg_count = Some 3\<rparr>]
   \<and> injected_to_server (foldl (\<lambda>s d. send_to_server demo_env d s)
          (InjectorBridgeHandler_init 100 None) [PBytes [7], PBytes [8]])
       - injected_to_client (foldl (\<lambda>s d. send_to_server demo_env d s)
          (InjectorBridgeHandler_init 100 None) [PBytes [7], PBytes [8]]) = 2"
proof -
  let ?S = "send_to_server demo_env (PBytes [7]) (InjectorBridgeHandler_init 100 None)"
  have "\<exists>r. InjectorBridgeHandler_handle demo_env [1, 2, 0] CoJeu ?S = Some r"
    by (simp add: demo_run)
  then obtain r where r: "InjectorBridgeHandler_handle demo_env [1, 2, 0] CoJeu ?S = Some r" ..
  note T = client_frame_sent_raw_recorded_rewritten
    [where env = demo_env and data = "[1, 2, 0]" and origin = CoJeu and st = ?S and r = r
       and t = "''ChatClientMultiMessage''"
       and m = "\<lparr>msg_id = 1, msg_data = [], msg_count = Some 2\<rparr>"
       and parsedMsg = "JDict [(''__type__'', JStr ''ChatClientMultiMessage''),
                               (''content'', JStr []), (''channel'', JInt 0)]"
       and remaining = 0 and c = 2 and st' = ?S]
  have h: "protocol_read demo_env ''ChatClientMultiMessage''
             (msg_data \<lparr>msg_id = 1, msg_data = [], msg_count = Some 2\<rparr>)
           = Inr (JDict [(''__type__'', JStr ''ChatClientMultiMessage''),
                               (''content'', JStr []), (''channel'', JInt 0)], 0)
         \<and> (0::nat) \<in> {0, 48}
         \<and> msg_count \<lparr>msg_id = 1, msg_data = [], msg_count = Some 2\<rparr> = Some 2
         \<and> dump_ok (dumper ?S)
             (\<lparr>msg_id = 1, msg_data = [], msg_count = Some 2\<rparr>
                \<lparr>msg_count := Some (2 + (injected_to_server ?S - injected_to_client ?S))\<rparr>)"
    by (simp add: demo_env_def demo_read_def dump_ok_def send_to_server_def sendall_def
        InjectorBridgeHandler_init_def)
  from T r have s: "sent (state_of r) = (sent ?S)(other CoJeu := sent ?S (other CoJeu) @ [[1, 2, 0]])"
    by blast
  from T h have k: "InjectorBridgeHandler_known demo_env CoJeu ''ChatClientMultiMessage''
         \<lparr>msg_id = 1, msg_data = [], msg_count = Some 2\<rparr> ?S
       = Returned (?S\<lparr>counter := 2 + (injected_to_server ?S - injected_to_client ?S),
                       db := deque_append (db_size ?S) (db ?S)
                         (\<lparr>msg_id = 1, msg_data = [], msg_count = Some 2\<rparr>\<lparr>msg_count :=
                              Some (2 + (injected_to_server ?S - injected_to_client ?S))\<rparr>)\<rparr>)"
    by blast
  from T have f: "injected_to_server (foldl (\<lambda>s d. send_to_server demo_env d s) ?S ds)
         - injected_to_client (foldl (\<lambda>s d. send_to_server demo_env d s) ?S ds)
       = injected_to_server ?S - injected_to_client ?S + int (length ds)" for ds
    by blast
  show ?thesis
    apply (intro conjI)
    subgoal using r s by (simp add: send_to_server_def sendall_def InjectorBridgeHandler_init_def)
    subgoal by (simp only: k raised.simps)
    subgoal by (simp only: k state_of.simps)
        (simp add: send_to_server_def sendall_def InjectorBridgeHandler_init_def)
    subgoal by (simp only: k state_of.simps)
        (simp add: send_to_server_def sendall_def InjectorBridgeHandler_init_def deque_append_def)
    subgoal using f [of "[PBytes [8]]"] by (simp add: send_to_server_def sendall_def InjectorBridgeHandler_init_def)
    done
qed

theorem client_frame_forwarded_with_original_counter_counterexample:
  "map_option (\<lambda>r. (sent (state_of r) CoSer, counter (state_of r), db (state_of r)))
     (Option.bind
        (InjectorBridgeHandler_handle demo_env [1, 1, 0] CoJeu (InjectorBridgeHandler_init 100 None))
        (\<lambda>r1. InjectorBridgeHandler_handle demo_env [1, 2, 0] CoJeu
            (send_to_server demo_env (PMsg \<lparr>msg_id = 1, msg_data = [104, 105], msg_count = None\<rparr>)
               (state_of r1))))
   = Some ([[1, 1, 0], [1, 2, 2, 104, 105], [1, 2, 0]], 3,
           [\<lparr>msg_id = 1, msg_data = [], msg_count = Some 1\<rparr>,
            \<lparr>msg_id = 1, msg_data = [], msg_count = Some 3\<rparr>])
   \<and> map_option (msg_count \<circ> fst) (Msg_fromRaw demo_env [1, 2, 0] True) = Some (Some 2)
   \<and> (2::int) \<noteq> 2 + (1 - 0)"
  by (simp add: demo_run)

lemma InjectorBridgeHandler_while_server_frames:
  assumes "parses env False (buf st CoSer) ms rest"
    and "\<forall>m\<in>set ms. decodes env {0, 48} m \<and> dump_ok (dumper st) m"
    and "fetch env CoSer st = (msg, st1)"
  shows "\<exists>st'. InjectorBridgeHandler_while env CoSer msg st1 = Some (Returned st')
           \<and> counter st' = counter st + int (length ms)
           \<and> buf st' CoSer = rest"
  using assms
proof (induction ms arbitrary: st msg st1)
  case Nil
  then have "msg = None" "st1 = st" "rest = buf st CoSer"
    by (auto simp: fetch_def)
  then show ?case
    by (subst InjectorBridgeHandler_while.simps) simp
next
  case (Cons m ms)
  from Cons.prems(1) obtain b' where
    raw: "Msg_fromRaw env (buf st CoSer) False = Some (m, b')" and p: "parses env False b' ms rest"
    by (auto split: option.splits)
  with Cons.prems(3) have msg: "msg = Some m" and st1: "st1 = st\<lparr>buf := (buf st)(CoSer := b')\<rparr>"
    by (auto simp: fetch_def)
  from Cons.prems(2) have d: "decodes env {0, 48} m" and ok: "dump_ok (dumper st) m"
    by simp_all
  from d obtain t parsedMsg remaining where
    t: "protocol_msg_from_id env (msg_id m) = Some t"
    and rd: "protocol_read env t (msg_data m) = Inr (parsedMsg, remaining)"
    and rem: "remaining \<in> {0, 48}"
    by (auto simp: decodes_def split: option.splits sum.splits)
  let ?st2 = "st1\<lparr>counter := counter st1 + 1, db := deque_append (db_size st1) (db st1) m\<rparr>"
  from ok st1 have "dump_ok (dumper st1) m" by simp
  from known_server_frame [OF rd rem this]
  have k: "InjectorBridgeHandler_known env CoSer t m st1 = Returned ?st2" .
  obtain msg' st3 where f: "fetch env CoSer ?st2 = (msg', st3)"
    by (cases "fetch env CoSer ?st2")
  have "parses env False (buf ?st2 CoSer) ms rest" using p st1 by simp
  moreover have "\<forall>m\<in>set ms. decodes env {0, 48} m \<and> dump_ok (dumper ?st2) m"
    using Cons.prems(2) st1 by simp
  ultimately obtain st' where
    w: "InjectorBridgeHandler_while env CoSer msg' st3 = Some (Returned st')"
    and c: "counter st' = counter ?st2 + int (length ms)" and b: "buf st' CoSer = rest"
    using Cons.IH [OF _ _ f] by blast
  have "InjectorBridgeHandler_while env CoSer (Some m) st1 = Some (Returned st')"
    by (subst InjectorBridgeHandler_while.simps) (simp add: t k f w)
  with msg c b st1 show ?case by simp
qed

text \<open>
  C10. In \<^verbatim>\<open>InjectorBridgeHandler.handle\<close> each decoded frame from the server adds one to
  \<^verbatim>\<open>self.counter\<close>. A chunk from the server whose frames \<open>ms\<close> all decode thus leaves the
  counter \<open>length ms\<close> higher, and the message injected next is given the counter
  \<open>counter + length ms + 1\<close>.
\<close>

theorem server_frames_advance_counter:
  "(protocol_read env t (msg_data m) = Inr (parsedMsg, remaining) \<and> remaining \<in> {0, 48}
      \<and> dump_ok (dumper st) m \<longrightarrow>
    InjectorBridgeHandler_known env CoSer t m st =
      Returned (st\<lparr>counter := counter st + 1, db := deque_append (db_size st) (db st) m\<rparr>))
   \<and> (parses env False (buf st CoSer @ data) ms rest
        \<and> (\<forall>m\<in>set ms. decodes env {0, 48} m \<and> dump_ok (dumper st) m) \<longrightarrow>
       (\<exists>st'. InjectorBridgeHandler_handle env data CoSer st = Some (Returned st')
          \<and> counter st' = counter st + int (length ms)
          \<and> sent (send_to_server env (PMsg x) st') CoSer =
              sent st CoSer
                @ [Msg_bytes env (x\<lparr>msg_count := Some (counter st + int (length ms) + 1)\<rparr>)]))"
proof (intro conjI impI)
  assume "protocol_read env t (msg_data m) = Inr (parsedMsg, remaining) \<and> remaining \<in> {0, 48}
      \<and> dump_ok (dumper st) m"
  then show "InjectorBridgeHandler_known env CoSer t m st =
      Returned (st\<lparr>counter := counter st + 1, db := deque_append (db_size st) (db st) m\<rparr>)"
    by (intro known_server_frame [of env t m parsedMsg remaining st]) blast+
next
  assume a: "parses env False (buf st CoSer @ data) ms rest
        \<and> (\<forall>m\<in>set ms. decodes env {0, 48} m \<and> dump_ok (dumper st) m)"
  let ?st0 = "buf_append CoSer data (sendall (other CoSer) data st)"
  obtain msg st1 where f: "fetch env CoSer ?st0 = (msg, st1)"
    by (cases "fetch env CoSer ?st0")
  have "parses env False (buf ?st0 CoSer) ms rest"
    using a by (simp add: buf_append_def sendall_def)
  moreover have "\<forall>m\<in>set ms. decodes env {0, 48} m \<and> dump_ok (dumper ?st0) m"
    using a by (simp add: buf_append_def sendall_def)
  ultimately obtain st' where
    w: "InjectorBridgeHandler_while env CoSer msg st1 = Some (Returned st')"
    and c: "counter st' = counter ?st0 + int (length ms)"
    using InjectorBridgeHandler_while_server_frames [OF _ _ f] by blast
  from w f have h: "InjectorBridgeHandler_handle env data CoSer st = Some (Returned st')"
    by (simp add: InjectorBridgeHandler_handle_def)
  from InjectorBridgeHandler_handle_forwards [OF h]
  have "sent st' CoSer = sent st CoSer" by simp
  with h c show "\<exists>st'. InjectorBridgeHandler_handle env data CoSer st = Some (Returned st')
          \<and> counter st' = counter st + int (length ms)
          \<and> sent (send_to_server env (PMsg x) st') CoSer =
              sent st CoSer
                @ [Msg_bytes env (x\<lparr>msg_count := Some (counter st + int (length ms) + 1)\<rparr>)]"
    by (simp add: send_to_server_fields buf_append_def sendall_def)
qed

theorem server_frames_advance_counter_witness:
  "raised (InjectorBridgeHandler_known demo_env CoSer ''BasicPongMessage''
      \<lparr>msg_id = 3, msg_data = [1], msg_count = None\<rparr> (InjectorBridgeHandler_init 100 None)) = None
   \<and> counter (state_of (InjectorBridgeHandler_known demo_env CoSer ''BasicPongMessage''
      \<lparr>msg_id = 3, msg_data = [1], msg_count = None\<rparr> (InjectorBridgeHandler_init 100 None))) = 1
   \<and> (\<exists>st'. InjectorBridgeHandler_handle demo_env [3, 1, 1, 3, 1, 0] CoSer
              (InjectorBridgeHandler_init 100 None) = Some (Returned st')
          \<and> counter st' = 2
          \<and> sent (send_to_server demo_env
                (PMsg \<lparr>msg_id = 1, msg_data = [104, 105], msg_count = None\<rparr>) st') CoSer
              = [[1, 3, 2, 104, 105]])"
proof -
  let ?S = "InjectorBridgeHandler_init 100 None"
  let ?m1 = "\<lparr>msg_id = 3, msg_data = [1], msg_count = None\<rparr>"
  let ?m2 = "\<lparr>msg_id = 3, msg_data = [0], msg_count = None\<rparr>"
  note T = server_frames_advance_counter
    [where env = demo_env and t = "''BasicPongMessage''" and m = ?m1
       and parsedMsg = "JDict [(''__type__'', JStr ''BasicPongMessage''), (''quiet'', JBool True)]"
       and remaining = 0 and st = ?S and data = "[3, 1, 1, 3, 1, 0]" and ms = "[?m1, ?m2]"
       and rest = "[]" and x = "\<lparr>msg_id = 1, msg_data = [104, 105], msg_count = None\<rparr>"]
  have h1: "protocol_read demo_env ''BasicPongMessage'' (msg_data ?m1)
              = Inr (JDict [(''__type__'', JStr ''BasicPongMessage''), (''quiet'', JBool True)], 0)
            \<and> (0::nat) \<in> {0, 48} \<and> dump_ok (dumper ?S) ?m1"
    by (simp add: demo_env_def demo_read_def dump_ok_def InjectorBridgeHandler_init_def)
  have h2: "parses demo_env False (buf ?S CoSer @ [3, 1, 1, 3, 1, 0]) [?m1, ?m2] []
        \<and> (\<forall>m\<in>set [?m1, ?m2]. decodes demo_env {0, 48} m \<and> dump_ok (dumper ?S) m)"
    by (simp add: demo_env_def demo_read_def dump_ok_def InjectorBridgeHandler_init_def
        decodes_def demo_msg_from_id_def)
  from T h1 have k: "InjectorBridgeHandler_known demo_env CoSer ''BasicPongMessage'' ?m1 ?S =
      Returned (?S\<lparr>counter := counter ?S + 1, db := deque_append (db_size ?S) (db ?S) ?m1\<rparr>)"
    by blast
  from T h2 have e: "\<exists>st'. InjectorBridgeHandler_handle demo_env [3, 1, 1, 3, 1, 0] CoSer ?S
              = Some (Returned st')
          \<and> counter st' = counter ?S + int (length [?m1, ?m2])
          \<and> sent (send_to_server demo_env
                (PMsg \<lparr>msg_id = 1, msg_data = [104, 105], msg_count = None\<rparr>) st') CoSer
              = sent ?S CoSer @ [Msg_bytes demo_env (\<lparr>msg_id = 1, msg_data = [104, 105], msg_count = None\<rparr>
                   \<lparr>msg_count := Some (counter ?S + int (length [?m1, ?m2]) + 1)\<rparr>)]"
    by blast
  show ?thesis
    apply (intro conjI)
    subgoal by (simp only: k raised.simps)
    subgoal by (simp only: k state_of.simps) (simp add: InjectorBridgeHandler_init_def)
    subgoal using e by (simp add: InjectorBridgeHandler_init_def demo_env_def demo_bytes_def)
    done
qed

section \<open>The check that the payload was read to its end\<close>

lemma MsgBridgeHandler_body_known:
  assumes "protocol_msg_from_id env (msg_id m) = Some t"
    and "protocol_read env t (msg_data m) = Inr (parsedMsg, remaining)"
  shows "MsgBridgeHandler_body env handle_message origin m st =
         (if remaining = 0 then handle_message parsedMsg origin st else Raised AssertionError st)"
  using assms by (simp add: MsgBridgeHandler_body_def)

lemma MsgBridgeHandler_while_unread:
  assumes "protocol_msg_from_id env (msg_id m) = Some t"
    and "protocol_read env t (msg_data m) = Inr (parsedMsg, remaining)"
    and "remaining \<noteq> 0"
  shows "MsgBridgeHandler_while env handle_message origin (Some m) st =
         Some (Raised AssertionError st)"
  using assms
  by (subst MsgBridgeHandler_while.simps) (simp add: MsgBridgeHandler_body_def)

lemma InjectorBridgeHandler_while_unread:
  assumes "protocol_msg_from_id env (msg_id m) = Some t"
    and "protocol_read env t (msg_data m) = Inr (parsedMsg, remaining)"
    and "remaining \<notin> {0, 48}"
  shows "InjectorBridgeHandler_while env origin (Some m) st = Some (Raised AssertionError st)"
  using assms
  by (subst InjectorBridgeHandler_while.simps) (simp add: InjectorBridgeHandler_known_def)

text \<open>
  C4 (as amended). For a frame whose id is in the registry, \<^verbatim>\<open>MsgBridgeHandler.handle\<close>
  (and \<^verbatim>\<open>LucInjector.handle\<close>, which repeats it) calls \<^verbatim>\<open>handle_message\<close> exactly when
  \<^verbatim>\<open>protocol.read\<close> left no byte unread, and raises \<^verbatim>\<open>AssertionError\<close>, in the state it
  had, when any byte is left. \<^verbatim>\<open>InjectorBridgeHandler.handle\<close> raises when the number of
  unread bytes is neither 0 nor 48. The error leaves \<^verbatim>\<open>loop\<close>, which closes both sockets.
\<close>

theorem unread_payload_raises_AssertionError:
  "(protocol_msg_from_id env (msg_id m) = Some t
      \<and> protocol_read env t (msg_data m) = Inr (parsedMsg, remaining) \<longrightarrow>
    MsgBridgeHandler_body env handle_message origin m st =
      (if remaining = 0 then handle_message parsedMsg origin st else Raised AssertionError st))
   \<and> (protocol_msg_from_id env (msg_id m) = Some t
      \<and> protocol_read env t (msg_data m) = Inr (parsedMsg, remaining) \<and> remaining \<noteq> 0 \<longrightarrow>
    MsgBridgeHandler_while env handle_message origin (Some m) st =
      Some (Raised AssertionError st))
   \<and> (protocol_msg_from_id env (msg_id m) = Some t
      \<and> protocol_read env t (msg_data m) = Inr (parsedMsg, remaining)
      \<and> remaining \<notin> {0, 48} \<longrightarrow>
    InjectorBridgeHandler_while env origin (Some m) jst = Some (Raised AssertionError jst))
   \<and> (data \<noteq> []
      \<and> MsgBridgeHandler_handle env handle_message data origin (policy s)
          = Some (Raised AssertionError p) \<longrightarrow>
    loop (MsgBridgeHandler_handle env handle_message) (Select ((origin, Recv data) # post) [] # evs) s
      = Some (Propagated AssertionError
          (close_all (s\<lparr>policy := p, delivered := delivered s @ [(data, origin)]\<rparr>))))
   \<and> (data \<noteq> []
      \<and> InjectorBridgeHandler_handle env data origin (policy js) = Some (Raised AssertionError jp) \<longrightarrow>
    loop (InjectorBridgeHandler_handle env) (Select ((origin, Recv data) # post) [] # evs) js
      = Some (Propagated AssertionError
          (close_all (js\<lparr>policy := jp, delivered := delivered js @ [(data, origin)]\<rparr>))))"
proof (intro conjI impI)
  assume "protocol_msg_from_id env (msg_id m) = Some t
      \<and> protocol_read env t (msg_data m) = Inr (parsedMsg, remaining)"
  then show "MsgBridgeHandler_body env handle_message origin m st =
      (if remaining = 0 then handle_message parsedMsg origin st else Raised AssertionError st)"
    by (intro MsgBridgeHandler_body_known) blast+
next
  assume "protocol_msg_from_id env (msg_id m) = Some t
      \<and> protocol_read env t (msg_data m) = Inr (parsedMsg, remaining) \<and> remaining \<noteq> 0"
  then show "MsgBridgeHandler_while env handle_message origin (Some m) st =
      Some (Raised AssertionError st)"
    by (intro MsgBridgeHandler_while_unread [of env m t parsedMsg remaining]) blast+
next
  assume "protocol_msg_from_id env (msg_id m) = Some t
      \<and> protocol_read env t (msg_data m) = Inr (parsedMsg, remaining)
      \<and> remaining \<notin> {0, 48}"
  then show "InjectorBridgeHandler_while env origin (Some m) jst = Some (Raised AssertionError jst)"
    by (intro InjectorBridgeHandler_while_unread [of env m t parsedMsg remaining]) blast+
next
  assume "data \<noteq> []
      \<and> MsgBridgeHandler_handle env handle_message data origin (policy s)
          = Some (Raised AssertionError p)"
  then show "loop (MsgBridgeHandler_handle env handle_message)
        (Select ((origin, Recv data) # post) [] # evs) s
      = Some (Propagated AssertionError
          (close_all (s\<lparr>policy := p, delivered := delivered s @ [(data, origin)]\<rparr>)))"
    by (intro loop_handle_raises) blast+
next
  assume "data \<noteq> []
      \<and> InjectorBridgeHandler_handle env data origin (policy js) = Some (Raised AssertionError jp)"
  then show "loop (InjectorBridgeHandler_handle env) (Select ((origin, Recv data) # post) [] # evs) js
      = Some (Propagated AssertionError
          (close_all (js\<lparr>policy := jp, delivered := delivered js @ [(data, origin)]\<rparr>)))"
    by (intro loop_handle_raises) blast+
qed

lemma demo_read_pong_48:
  "demo_read ''BasicPongMessage'' (1 # replicate 48 0)
   = Inr (JDict [(''__type__'', JStr ''BasicPongMessage''), (''quiet'', JBool True)], 48)"
  by (simp add: demo_read_def)

theorem injector_accepts_48_unread_bytes_counterexample:
  "map_option (\<lambda>r. (raised r, counter (state_of r), map msg_id (db (state_of r))))
     (InjectorBridgeHandler_handle demo_env (3 # 49 # 1 # replicate 48 0) CoSer
        (InjectorBridgeHandler_init 100 None))
   = Some (None, 1, [3])
   \<and> protocol_read demo_env ''BasicPongMessage'' (1 # replicate 48 0)
     = Inr (JDict [(''__type__'', JStr ''BasicPongMessage''), (''quiet'', JBool True)], 48)"
  by (simp add: InjectorBridgeHandler_handle_def InjectorBridgeHandler_while.simps fetch_def
      buf_append_def sendall_def InjectorBridgeHandler_init_def demo_env_def demo_msg_from_id_def
      demo_read_pong_48 InjectorBridgeHandler_known_def deque_append_def
      InjectorBridgeHandler_handle_message_def)

theorem unread_payload_raises_AssertionError_witness:
  "MsgBridgeHandler_body demo_env (\<lambda>p c s. Returned (s\<lparr>buf := (\<lambda>c. [7])\<rparr>)) CoSer
      \<lparr>msg_id = 3, msg_data = [1], msg_count = None\<rparr> \<lparr>sent = (\<lambda>c. []), buf = (\<lambda>c. [])\<rparr>
     = Returned \<lparr>sent = (\<lambda>c. []), buf = (\<lambda>c. [7])\<rparr>
   \<and> MsgBridgeHandler_while demo_env (\<lambda>p c s. Returned (s\<lparr>buf := (\<lambda>c. [7])\<rparr>)) CoSer
      (Some \<lparr>msg_id = 3, msg_data = [1, 0], msg_count = None\<rparr>)
      \<lparr>sent = (\<lambda>c. []), buf = (\<lambda>c. [])\<rparr>
     = Some (Raised AssertionError \<lparr>sent = (\<lambda>c. []), buf = (\<lambda>c. [])\<rparr>)
   \<and> map_option raised
       (InjectorBridgeHandler_while demo_env CoSer
          (Some \<lparr>msg_id = 3, msg_data = [1, 0], msg_count = None\<rparr>)
          (InjectorBridgeHandler_init 100 None))
     = Some (Some AssertionError)
   \<and> (\<exists>r. loop (MsgBridgeHandler_handle demo_env (\<lambda>p c s. Returned (s\<lparr>buf := (\<lambda>c. [7])\<rparr>)))
            [Select [(CoSer, Recv [3, 2, 1, 0])] [], Select [(CoSer, Recv [3, 1, 1])] []]
            (new_session \<lparr>sent = (\<lambda>c. []), buf = (\<lambda>c. [])\<rparr>) = Some r
         \<and> propagated r = Some AssertionError
         \<and> close_calls (session_of r) CoJeu = 1 \<and> close_calls (session_of r) CoSer = 1
         \<and> delivered (session_of r) = [([3, 2, 1, 0], CoSer)])
   \<and> (\<exists>r. loop (InjectorBridgeHandler_handle demo_env)
            [Select [(CoSer, Recv [3, 2, 1, 0])] [], Select [(CoSer, Recv [3, 1, 1])] []]
            (new_session (InjectorBridgeHandler_init 100 None)) = Some r
         \<and> propagated r = Some AssertionError
         \<and> close_calls (session_of r) CoJeu = 1 \<and> close_calls (session_of r) CoSer = 1
         \<and> delivered (session_of r) = [([3, 2, 1, 0], CoSer)])"
proof -
  let ?hm = "\<lambda>(p::json) (c::conn) (s::buffered). Returned (s\<lparr>buf := (\<lambda>c. [7])\<rparr>)"
  let ?st = "\<lparr>sent = (\<lambda>c. []), buf = (\<lambda>c. [])\<rparr> :: buffered"
  let ?I = "InjectorBridgeHandler_init 100 None"
  let ?pong = "JDict [(''__type__'', JStr ''BasicPongMessage''), (''quiet'', JBool True)]"
  let ?m1 = "\<lparr>msg_id = 3, msg_data = [1], msg_count = None\<rparr>"
  let ?m2 = "\<lparr>msg_id = 3, msg_data = [1, 0], msg_count = None\<rparr>"
  have id1: "protocol_msg_from_id demo_env (msg_id ?m1) = Some ''BasicPongMessage''
      \<and> protocol_read demo_env ''BasicPongMessage'' (msg_data ?m1) = Inr (?pong, 0)"
    by (simp add: demo_env_def demo_msg_from_id_def demo_read_def)
  have id2: "protocol_msg_from_id demo_env (msg_id ?m2) = Some ''BasicPongMessage''
      \<and> protocol_read demo_env ''BasicPongMessage'' (msg_data ?m2) = Inr (?pong, 1)
      \<and> (1::nat) \<noteq> 0"
    by (simp add: demo_env_def demo_msg_from_id_def demo_read_def)
  have id3: "protocol_msg_from_id demo_env (msg_id ?m2) = Some ''BasicPongMessage''
      \<and> protocol_read demo_env ''BasicPongMessage'' (msg_data ?m2) = Inr (?pong, 1)
      \<and> (1::nat) \<notin> {0, 48}"
    by (simp add: demo_env_def demo_msg_from_id_def demo_read_def)
  have "\<exists>p. MsgBridgeHandler_handle demo_env ?hm [3, 2, 1, 0] CoSer ?st
          = Some (Raised AssertionError p)"
    by (simp add: MsgBridgeHandler_handle_def MsgBridgeHandler_while.simps fetch_def
        buf_append_def DummyBridgeHandler_handle_def sendall_def demo_env_def
        demo_msg_from_id_def demo_read_def MsgBridgeHandler_body_def)
  then obtain p where p: "MsgBridgeHandler_handle demo_env ?hm [3, 2, 1, 0] CoSer ?st
          = Some (Raised AssertionError p)" ..
  have "\<exists>p. InjectorBridgeHandler_handle demo_env [3, 2, 1, 0] CoSer ?I
          = Some (Raised AssertionError p)"
    by (simp add: demo_run)
  then obtain jp where jp: "InjectorBridgeHandler_handle demo_env [3, 2, 1, 0] CoSer ?I
          = Some (Raised AssertionError jp)" ..
  note T1 = unread_payload_raises_AssertionError
    [where env = demo_env and m = ?m1 and t = "''BasicPongMessage''" and parsedMsg = ?pong
       and remaining = 0 and handle_message = ?hm and origin = CoSer and st = ?st]
  note T2 = unread_payload_raises_AssertionError
    [where env = demo_env and m = ?m2 and t = "''BasicPongMessage''" and parsedMsg = ?pong
       and remaining = 1 and handle_message = ?hm and origin = CoSer and st = ?st and jst = ?I
       and data = "[3, 2, 1, 0]" and s = "new_session ?st" and p = p
       and js = "new_session ?I" and jp = jp and post = "[]"
       and evs = "[Select [(CoSer, Recv [3, 1, 1])] []]"]
  from T1 id1 have c1: "MsgBridgeHandler_body demo_env ?hm CoSer ?m1 ?st
      = (if (0::nat) = 0 then ?hm ?pong CoSer ?st else Raised AssertionError ?st)"
    by blast
  from T2 id2 have c2: "MsgBridgeHandler_while demo_env ?hm CoSer (Some ?m2) ?st
      = Some (Raised AssertionError ?st)"
    by blast
  from T2 id3 have c3: "InjectorBridgeHandler_while demo_env CoSer (Some ?m2) ?I
      = Some (Raised AssertionError ?I)"
    by blast
  from p have p': "[3, 2, 1, 0] \<noteq> ([]::bytes)
      \<and> MsgBridgeHandler_handle demo_env ?hm [3, 2, 1, 0] CoSer (policy (new_session ?st))
          = Some (Raised AssertionError p)"
    by (simp add: new_session_def)
  from jp have jp': "[3, 2, 1, 0] \<noteq> ([]::bytes)
      \<and> InjectorBridgeHandler_handle demo_env [3, 2, 1, 0] CoSer (policy (new_session ?I))
          = Some (Raised AssertionError jp)"
    by (simp add: new_session_def)
  from T2 p' have c4: "loop (MsgBridgeHandler_handle demo_env ?hm)
        (Select ((CoSer, Recv [3, 2, 1, 0]) # []) [] # [Select [(CoSer, Recv [3, 1, 1])] []])
        (new_session ?st)
      = Some (Propagated AssertionError
          (close_all ((new_session ?st)\<lparr>policy := p,
             delivered := delivered (new_session ?st) @ [([3, 2, 1, 0], CoSer)]\<rparr>)))"
    by blast
  from T2 jp' have c5: "loop (InjectorBridgeHandler_handle demo_env)
        (Select ((CoSer, Recv [3, 2, 1, 0]) # []) [] # [Select [(CoSer, Recv [3, 1, 1])] []])
        (new_session ?I)
      = Some (Propagated AssertionError
          (close_all ((new_session ?I)\<lparr>policy := jp,
             delivered := delivered (new_session ?I) @ [([3, 2, 1, 0], CoSer)]\<rparr>)))"
    by blast
  show ?thesis
    apply (intro conjI)
    subgoal by (simp only: c1) simp
    subgoal by (rule c2)
    subgoal by (simp only: c3) simp
    subgoal by (simp only: c4) (simp add: close_calls_close_all close_all_keeps new_session_def)
    subgoal by (simp only: c5) (simp add: close_calls_close_all close_all_keeps new_session_def)
    done
qed

section \<open>\<^verbatim>\<open>LucInjector.handle_message\<close>: pacing and control messages\<close>

lemma refill_prefix:
  "k \<le> length its \<Longrightarrow>
     foldl (\<lambda>l i. l[i := Some (its ! i)]) (replicate (length its) None) [0..<k]
     = map Some (take k its) @ replicate (length its - k) None"
proof (induction k)
  case 0
  show ?case by simp
next
  case (Suc k)
  then have k: "k < length its" by simp
  then obtain j where j: "length its - k = Suc j"
    by (cases "length its - k") auto
  then have j': "length its - Suc k = j" by simp
  from Suc k have "foldl (\<lambda>l i. l[i := Some (its ! i)]) (replicate (length its) None) [0..<Suc k]
      = (map Some (take k its) @ replicate (length its - k) None)[k := Some (its ! k)]"
    by simp
  also have "\<dots> = map Some (take (Suc k) its) @ replicate (length its - Suc k) None"
    using k by (simp add: j j' list_update_append take_Suc_conv_app_nth)
  finally show ?case .
qed

lemma refill_eq: "refill its = map Some its"
  using refill_prefix [of "length its" its] by (simp add: refill_def)

lemma send_to_server_luc_fields:
  "injections (send_to_server env data st) = injections st"
  "script (send_to_server env data st) = script st"
  "items (send_to_server env data st) = items st"
  "itemsleft (send_to_server env data st) = itemsleft st"
  "timer (send_to_server env data st) = timer st"
  "clock (send_to_server env data st) = clock st"
  by (simp_all add: send_to_server_def sendall_def Let_def)

lemmas injection_defs = ask_item_price_def disconnect_hdv_def connect_hdv_def send_message_def

lemma pacing_keeps:
  "counter (pacing env st) = counter st"
  "items (pacing env st) = items st"
  "script (pacing env st) = script st"
  "buf (pacing env st) = buf st"
  "sent (pacing env st) CoJeu = sent st CoJeu"
  by (simp_all add: pacing_def Let_def injection_defs send_to_server_fields
      send_to_server_luc_fields)

lemma pacing_idle: "script st \<noteq> ''on'' \<Longrightarrow> pacing env st = st"
  by (simp add: pacing_def)

lemma pacing_empty:
  "script st = ''on'' \<Longrightarrow> itemsleft st = [] \<Longrightarrow>
     pacing env st = st\<lparr>itemsleft := map Some (items st)\<rparr>"
  by (simp add: pacing_def refill_eq)

lemma pacing_wait:
  "script st = ''on'' \<Longrightarrow> itemsleft st \<noteq> [] \<Longrightarrow>
   \<not> time_time env (clock st) - timer st > 0.8 \<Longrightarrow>
     pacing env st = st\<lparr>clock := clock st + 1\<rparr>"
  by (simp add: pacing_def Let_def)

lemma pacing_refresh:
  "script st = ''on'' \<Longrightarrow> itemsleft st \<noteq> [] \<Longrightarrow>
   time_time env (clock st) - timer st > 0.8 \<Longrightarrow> injections st mod 3 = 2 \<Longrightarrow>
     pacing env st =
       (connect_hdv env (disconnect_hdv env (st\<lparr>clock := clock st + 1\<rparr>)))
         \<lparr>injections := injections st + 1\<rparr>"
  by (simp add: pacing_def Let_def injection_defs send_to_server_luc_fields)

lemma pacing_query:
  "script st = ''on'' \<Longrightarrow> itemsleft st \<noteq> [] \<Longrightarrow>
   time_time env (clock st) - timer st > 0.8 \<Longrightarrow> injections st mod 3 \<noteq> 2 \<Longrightarrow>
     pacing env st =
       (ask_item_price env (last (itemsleft st))
          (st\<lparr>clock := clock st + 1, itemsleft := butlast (itemsleft st)\<rparr>))
         \<lparr>timer := time_time env (clock st), injections := injections st + 1\<rparr>"
  by (simp add: pacing_def Let_def injection_defs send_to_server_luc_fields)

lemma chat_not_masked: "JStr ''ChatClientMultiMessage'' \<notin> set (map JStr masked)"
  by (simp add: masked_def)

lemma price_not_masked:
  "JStr ''ExchangeTypesItemsExchangerDescriptionForUserMessage'' \<notin> set (map JStr masked)"
  by (simp add: masked_def)

lemma inspect_chat:
  assumes "getitem msg ''__type__'' = Inr (JStr ''ChatClientMultiMessage'')"
    and "getitem msg ''content'' = Inr content"
  shows "inspect env msg origin st =
     (if content = JStr ''stop'' then
        Returned (send_message env ''stooooooop'' (st\<lparr>script := ''off''\<rparr>))
      else if content = JStr ''lessgo'' then
        Returned (send_message env ''gooooooooo''
          (st\<lparr>script := ''on'', timer := time_time env (clock st),
              clock := clock st + 1, itemsleft := map Some (items st)\<rparr>))
      else Returned st)"
  using assms chat_not_masked by (simp add: inspect_def refill_eq)

lemma inspect_price:
  assumes "getitem msg ''__type__'' = Inr (JStr ''ExchangeTypesItemsExchangerDescriptionForUserMessage'')"
  shows "inspect env msg origin st =
     (case price_report msg of
        Inl e \<Rightarrow> Raised e st
      | Inr None \<Rightarrow> Returned st
      | Inr (Some (itemID, prices)) \<Rightarrow>
          (case requests_get env itemID prices of
             Some e \<Rightarrow> Raised e st
           | None \<Rightarrow> Returned st))"
  using assms price_not_masked by (simp add: inspect_def)

lemma inspect_other:
  assumes "getitem msg ''__type__'' = Inr t"
    and "t \<noteq> JStr ''ExchangeTypesItemsExchangerDescriptionForUserMessage''"
    and "t \<noteq> JStr ''ChatClientMultiMessage''"
  shows "inspect env msg origin st = Returned st"
  using assms by (simp add: inspect_def)

lemma inspect_keeps_buf: "buf (state_of (inspect env msg origin st)) = buf st"
  by (simp add: inspect_def send_message_def send_to_server_fields
      split: sum.split option.split prod.split)

lemma LucInjector_handle_terminates:
  assumes "consuming env"
  shows "\<exists>r. LucInjector_handle env data origin st = Some r"
proof -
  have "\<exists>r. MsgBridgeHandler_while env (LucInjector_handle_message env) origin msg st' = Some r"
    for msg and st' :: LucInjector
    by (rule MsgBridgeHandler_while_terminates [OF assms])
      (simp add: LucInjector_handle_message_def inspect_keeps_buf pacing_keeps)
  then show ?thesis
    by (simp add: LucInjector_handle_def MsgBridgeHandler_handle_def split: prod.split)
qed

text \<open>
  C7 (as amended). For a frame that is neither a chat nor a price message,
  \<^verbatim>\<open>handle_message\<close> is the pacing step. While the script is on and the worklist is not
  empty, a frame seen more than 0.8 after the timer performs one action and adds one to
  \<^verbatim>\<open>self.injections\<close>: when \<^verbatim>\<open>self.injections % 3 == 2\<close> it sends the leave request and
  then the request to use the fixed element, and the worklist is untouched; otherwise it
  removes the last entry of the worklist, sends a search for it through
  \<^verbatim>\<open>send_to_server\<close> and sets the timer to the time just read. A frame seen no later
  than that performs no action. With an empty worklist the frame refills the worklist
  and performs no action.
\<close>

theorem pacing_performs_one_action:
  "(getitem msg ''__type__'' = Inr t
      \<and> t \<noteq> JStr ''ExchangeTypesItemsExchangerDescriptionForUserMessage''
      \<and> t \<noteq> JStr ''ChatClientMultiMessage'' \<longrightarrow>
    LucInjector_handle_message env msg origin st = Returned (pacing env st))
   \<and> (script st = ''on'' \<and> itemsleft st \<noteq> [] \<and> time_time env (clock st) - timer st > 0.8
      \<and> injections st mod 3 = 2 \<longrightarrow>
    injections (pacing env st) = injections st + 1
    \<and> sent (pacing env st) CoSer =
        sent st CoSer @
          [Msg_bytes env ((Msg_from_json env
              (JDict [(''__type__'', JStr ''LeaveDialogRequestMessage'')]))
                \<lparr>msg_count := Some (counter st + 1)\<rparr>),
           Msg_bytes env ((Msg_from_json env
              (JDict [(''__type__'', JStr ''InteractiveUseRequestMessage''),
                      (''elemId'', JInt 522694), (''skillInstanceUid'', JInt 136144973)]))
                \<lparr>msg_count := Some (counter st + 1)\<rparr>)]
    \<and> itemsleft (pacing env st) = itemsleft st \<and> script (pacing env st) = ''on'')
   \<and> (script st = ''on'' \<and> itemsleft st \<noteq> [] \<and> time_time env (clock st) - timer st > 0.8
      \<and> injections st mod 3 \<noteq> 2 \<longrightarrow>
    injections (pacing env st) = injections st + 1
    \<and> sent (pacing env st) CoSer =
        sent st CoSer @
          [Msg_bytes env ((Msg_from_json env
              (JDict [(''__type__'', JStr ''ExchangeBidHouseSearchMessage''),
                      (''genId'', (case last (itemsleft st) of None \<Rightarrow> JNull | Some i \<Rightarrow> JInt i)),
                      (''follow'', JBool True)]))
                \<lparr>msg_count := Some (counter st + 1)\<rparr>)]
    \<and> itemsleft (pacing env st) = butlast (itemsleft st)
    \<and> timer (pacing env st) = time_time env (clock st) \<and> script (pacing env st) = ''on'')
   \<and> (script st = ''on'' \<and> itemsleft st \<noteq> [] \<and> \<not> time_time env (clock st) - timer st > 0.8 \<longrightarrow>
    injections (pacing env st) = injections st \<and> sent (pacing env st) = sent st
    \<and> itemsleft (pacing env st) = itemsleft st \<and> timer (pacing env st) = timer st)
   \<and> (script st = ''on'' \<and> itemsleft st = [] \<longrightarrow>
    injections (pacing env st) = injections st \<and> sent (pacing env st) = sent st
    \<and> itemsleft (pacing env st) = map Some (items st))"
proof (intro conjI impI)
  assume "getitem msg ''__type__'' = Inr t
      \<and> t \<noteq> JStr ''ExchangeTypesItemsExchangerDescriptionForUserMessage''
      \<and> t \<noteq> JStr ''ChatClientMultiMessage''"
  then show "LucInjector_handle_message env msg origin st = Returned (pacing env st)"
    unfolding LucInjector_handle_message_def by (intro inspect_other [of msg t]) blast+
next
  assume a: "script st = ''on'' \<and> itemsleft st \<noteq> [] \<and> time_time env (clock st) - timer st > 0.8
      \<and> injections st mod 3 = 2"
  then have p: "pacing env st =
       (connect_hdv env (disconnect_hdv env (st\<lparr>clock := clock st + 1\<rparr>)))
         \<lparr>injections := injections st + 1\<rparr>"
    by (intro pacing_refresh) blast+
  show "injections (pacing env st) = injections st + 1" by (simp add: p)
  show "sent (pacing env st) CoSer =
        sent st CoSer @
          [Msg_bytes env ((Msg_from_json env
              (JDict [(''__type__'', JStr ''LeaveDialogRequestMessage'')]))
                \<lparr>msg_count := Some (counter st + 1)\<rparr>),
           Msg_bytes env ((Msg_from_json env
              (JDict [(''__type__'', JStr ''InteractiveUseRequestMessage''),
                      (''elemId'', JInt 522694), (''skillInstanceUid'', JInt 136144973)]))
                \<lparr>msg_count := Some (counter st + 1)\<rparr>)]"
    by (simp add: p connect_hdv_def disconnect_hdv_def send_to_server_fields)
  show "itemsleft (pacing env st) = itemsleft st"
    by (simp add: p connect_hdv_def disconnect_hdv_def send_to_server_luc_fields)
  show "script (pacing env st) = ''on''" using a by (simp add: pacing_keeps)
next
  assume a: "script st = ''on'' \<and> itemsleft st \<noteq> [] \<and> time_time env (clock st) - timer st > 0.8
      \<and> injections st mod 3 \<noteq> 2"
  then have p: "pacing env st =
       (ask_item_price env (last (itemsleft st))
          (st\<lparr>clock := clock st + 1, itemsleft := butlast (itemsleft st)\<rparr>))
         \<lparr>timer := time_time env (clock st), injections := injections st + 1\<rparr>"
    by (intro pacing_query) blast+
  show "injections (pacing env st) = injections st + 1" by (simp add: p)
  show "sent (pacing env st) CoSer =
        sent st CoSer @
          [Msg_bytes env ((Msg_from_json env
              (JDict [(''__type__'', JStr ''ExchangeBidHouseSearchMessage''),
                      (''genId'', (case last (itemsleft st) of None \<Rightarrow> JNull | Some i \<Rightarrow> JInt i)),
                      (''follow'', JBool True)]))
                \<lparr>msg_count := Some (counter st + 1)\<rparr>)]"
    by (simp add: p ask_item_price_def send_to_server_fields)
  show "itemsleft (pacing env st) = butlast (itemsleft st)"
    by (simp add: p ask_item_price_def send_to_server_luc_fields)
  show "timer (pacing env st) = time_time env (clock st)" by (simp add: p)
  show "script (pacing env st) = ''on''" using a by (simp add: pacing_keeps)
next
  assume "script st = ''on'' \<and> itemsleft st \<noteq> [] \<and> \<not> time_time env (clock st) - timer st > 0.8"
  then have p: "pacing env st = st\<lparr>clock := clock st + 1\<rparr>"
    by (intro pacing_wait) blast+
  show "injections (pacing env st) = injections st" by (simp add: p)
  show "sent (pacing env st) = sent st" by (simp add: p)
  show "itemsleft (pacing env st) = itemsleft st" by (simp add: p)
  show "timer (pacing env st) = timer st" by (simp add: p)
next
  assume "script st = ''on'' \<and> itemsleft st = []"
  then have p: "pacing env st = st\<lparr>itemsleft := map Some (items st)\<rparr>"
    by (intro pacing_empty) blast+
  show "injections (pacing env st) = injections st" by (simp add: p)
  show "sent (pacing env st) = sent st" by (simp add: p)
  show "itemsleft (pacing env st) = map Some (items st)" by (simp add: p)
qed

lemmas luc_run =
  LucInjector_init_def demo_env_def demo_from_json_def demo_bytes_def pacing_def Let_def
  injection_defs send_to_server_def sendall_def refill_eq

theorem pacing_skips_action_on_empty_worklist_counterexample:
  "script ((LucInjector_init demo_env [7, 8, 9])\<lparr>script := ''on'', itemsleft := []\<rparr>) = ''on''
   \<and> time_time demo_env (clock ((LucInjector_init demo_env [7, 8, 9])\<lparr>script := ''on'', itemsleft := []\<rparr>))
       - timer ((LucInjector_init demo_env [7, 8, 9])\<lparr>script := ''on'', itemsleft := []\<rparr>) > 0.8
   \<and> sent (state_of (LucInjector_handle_message demo_env
         (JDict [(''__type__'', JStr ''BasicPongMessage''), (''quiet'', JBool True)]) CoSer
         ((LucInjector_init demo_env [7, 8, 9])\<lparr>script := ''on'', itemsleft := []\<rparr>))) CoSer = []
   \<and> injections (state_of (LucInjector_handle_message demo_env
         (JDict [(''__type__'', JStr ''BasicPongMessage''), (''quiet'', JBool True)]) CoSer
         ((LucInjector_init demo_env [7, 8, 9])\<lparr>script := ''on'', itemsleft := []\<rparr>))) = 0
   \<and> timer (state_of (LucInjector_handle_message demo_env
         (JDict [(''__type__'', JStr ''BasicPongMessage''), (''quiet'', JBool True)]) CoSer
         ((LucInjector_init demo_env [7, 8, 9])\<lparr>script := ''on'', itemsleft := []\<rparr>))) = 0
   \<and> itemsleft (state_of (LucInjector_handle_message demo_env
         (JDict [(''__type__'', JStr ''BasicPongMessage''), (''quiet'', JBool True)]) CoSer
         ((LucInjector_init demo_env [7, 8, 9])\<lparr>script := ''on'', itemsleft := []\<rparr>)))
       = [Some 7, Some 8, Some 9]"
  by (simp add: luc_run LucInjector_handle_message_def inspect_def)

theorem pacing_performs_one_action_witness:
  "LucInjector_handle_message demo_env
      (JDict [(''__type__'', JStr ''BasicPongMessage''), (''quiet'', JBool True)]) CoSer
      ((LucInjector_init demo_env [7, 8, 9])\<lparr>script := ''on'', itemsleft := [Some 7, Some 8, Some 9]\<rparr>)
    = Returned (pacing demo_env
        ((LucInjector_init demo_env [7, 8, 9])\<lparr>script := ''on'', itemsleft := [Some 7, Some 8, Some 9]\<rparr>))
   \<and> injections (pacing demo_env
        ((LucInjector_init demo_env [7, 8, 9])\<lparr>script := ''on'', itemsleft := [Some 7, Some 8, Some 9]\<rparr>)) = 1
   \<and> sent (pacing demo_env
        ((LucInjector_init demo_env [7, 8, 9])\<lparr>script := ''on'', itemsleft := [Some 7, Some 8, Some 9]\<rparr>)) CoSer
       = [[5, 1, 1, 9]]
   \<and> itemsleft (pacing demo_env
        ((LucInjector_init demo_env [7, 8, 9])\<lparr>script := ''on'', itemsleft := [Some 7, Some 8, Some 9]\<rparr>))
       = [Some 7, Some 8]
   \<and> timer (pacing demo_env
        ((LucInjector_init demo_env [7, 8, 9])\<lparr>script := ''on'', itemsleft := [Some 7, Some 8, Some 9]\<rparr>)) = 1
   \<and> injections (pacing demo_env
        ((LucInjector_init demo_env [7, 8, 9])\<lparr>script := ''on'', itemsleft := [Some 7, Some 8, Some 9],
            injections := 2\<rparr>)) = 3
   \<and> sent (pacing demo_env
        ((LucInjector_init demo_env [7, 8, 9])\<lparr>script := ''on'', itemsleft := [Some 7, Some 8, Some 9],
            injections := 2\<rparr>)) CoSer
       = [[6, 1, 0], [7, 1, 0]]
   \<and> itemsleft (pacing demo_env
        ((LucInjector_init demo_env [7, 8, 9])\<lparr>script := ''on'', itemsleft := [Some 7, Some 8, Some 9],
            injections := 2\<rparr>))
       = [Some 7, Some 8, Some 9]
   \<and> sent (pacing demo_env
        ((LucInjector_init demo_env [7, 8, 9])\<lparr>script := ''on'', itemsleft := [Some 7, Some 8, Some 9],
            timer := 1\<rparr>)) CoSer = []
   \<and> itemsleft (pacing demo_env
        ((LucInjector_init demo_env [7, 8, 9])\<lparr>script := ''on'', itemsleft := []\<rparr>))
       = [Some 7, Some 8, Some 9]"
proof -
  let ?S = "(LucInjector_init demo_env [7, 8, 9])\<lparr>script := ''on'', itemsleft := [Some 7, Some 8, Some 9]\<rparr>"
  let ?R = "(LucInjector_init demo_env [7, 8, 9])\<lparr>script := ''on'', itemsleft := [Some 7, Some 8, Some 9],
            injections := 2\<rparr>"
  let ?W = "(LucInjector_init demo_env [7, 8, 9])\<lparr>script := ''on'', itemsleft := [Some 7, Some 8, Some 9],
            timer := 1\<rparr>"
  let ?E = "(LucInjector_init demo_env [7, 8, 9])\<lparr>script := ''on'', itemsleft := []\<rparr>"
  let ?pong = "JDict [(''__type__'', JStr ''BasicPongMessage''), (''quiet'', JBool True)]"
  note T = pacing_performs_one_action [where env = demo_env and msg = ?pong
      and t = "JStr ''BasicPongMessage''" and origin = CoSer]
  have h1: "getitem ?pong ''__type__'' = Inr (JStr ''BasicPongMessage'')
      \<and> JStr ''BasicPongMessage'' \<noteq> JStr ''ExchangeTypesItemsExchangerDescriptionForUserMessage''
      \<and> JStr ''BasicPongMessage'' \<noteq> JStr ''ChatClientMultiMessage''"
    by simp
  have hq: "script ?S = ''on'' \<and> itemsleft ?S \<noteq> [] \<and> time_time demo_env (clock ?S) - timer ?S > 0.8
      \<and> injections ?S mod 3 \<noteq> 2"
    by (simp add: LucInjector_init_def demo_env_def)
  have hr: "script ?R = ''on'' \<and> itemsleft ?R \<noteq> [] \<and> time_time demo_env (clock ?R) - timer ?R > 0.8
      \<and> injections ?R mod 3 = 2"
    by (simp add: LucInjector_init_def demo_env_def)
  have hw: "script ?W = ''on'' \<and> itemsleft ?W \<noteq> []
      \<and> \<not> time_time demo_env (clock ?W) - timer ?W > 0.8"
    by (simp add: LucInjector_init_def demo_env_def)
  have he: "script ?E = ''on'' \<and> itemsleft ?E = []"
    by simp
  from T [where st = ?S] h1
  have c1: "LucInjector_handle_message demo_env ?pong CoSer ?S = Returned (pacing demo_env ?S)"
    by blast
  from T [where st = ?S] hq
  have c2: "injections (pacing demo_env ?S) = injections ?S + 1
    \<and> sent (pacing demo_env ?S) CoSer =
        sent ?S CoSer @
          [Msg_bytes demo_env ((Msg_from_json demo_env
              (JDict [(''__type__'', JStr ''ExchangeBidHouseSearchMessage''),
                      (''genId'', (case last (itemsleft ?S) of None \<Rightarrow> JNull | Some i \<Rightarrow> JInt i)),
                      (''follow'', JBool True)]))
                \<lparr>msg_count := Some (counter ?S + 1)\<rparr>)]
    \<and> itemsleft (pacing demo_env ?S) = butlast (itemsleft ?S)
    \<and> timer (pacing demo_env ?S) = time_time demo_env (clock ?S)"
    by blast
  from T [where st = ?R] hr
  have c3: "injections (pacing demo_env ?R) = injections ?R + 1
    \<and> sent (pacing demo_env ?R) CoSer =
        sent ?R CoSer @
          [Msg_bytes demo_env ((Msg_from_json demo_env
              (JDict [(''__type__'', JStr ''LeaveDialogRequestMessage'')]))
                \<lparr>msg_count := Some (counter ?R + 1)\<rparr>),
           Msg_bytes demo_env ((Msg_from_json demo_env
              (JDict [(''__type__'', JStr ''InteractiveUseRequestMessage''),
                      (''elemId'', JInt 522694), (''skillInstanceUid'', JInt 136144973)]))
                \<lparr>msg_count := Some (counter ?R + 1)\<rparr>)]
    \<and> itemsleft (pacing demo_env ?R) = itemsleft ?R"
    by blast
  from T [where st = ?W] hw
  have c4: "sent (pacing demo_env ?W) = sent ?W"
    by blast
  from T [where st = ?E] he
  have c5: "itemsleft (pacing demo_env ?E) = map Some (items ?E)"
    by blast
  show ?thesis
    apply (intro conjI)
    subgoal by (rule c1)
    subgoal by (simp only: c2) (simp add: LucInjector_init_def)
    subgoal by (simp only: c2)
        (simp add: LucInjector_init_def demo_env_def demo_from_json_def demo_bytes_def)
    subgoal by (simp only: c2) simp
    subgoal by (simp only: c2) (simp add: LucInjector_init_def demo_env_def)
    subgoal by (simp only: c3) (simp add: LucInjector_init_def)
    subgoal by (simp only: c3)
        (simp add: LucInjector_init_def demo_env_def demo_from_json_def demo_bytes_def)
    subgoal by (simp only: c3) simp
    subgoal by (simp only: c4) (simp add: LucInjector_init_def)
    subgoal by (simp only: c5) (simp add: LucInjector_init_def)
    done
qed

lemma handle_message_chat:
  assumes "getitem msg ''__type__'' = Inr (JStr ''ChatClientMultiMessage'')"
    and "getitem msg ''content'' = Inr content"
  shows "LucInjector_handle_message env msg origin st =
     (if content = JStr ''stop'' then
        Returned (send_message env ''stooooooop'' ((pacing env st)\<lparr>script := ''off''\<rparr>))
      else if content = JStr ''lessgo'' then
        Returned (send_message env ''gooooooooo''
          ((pacing env st)\<lparr>script := ''on'', timer := time_time env (clock (pacing env st)),
              clock := clock (pacing env st) + 1, itemsleft := map Some (items st)\<rparr>))
      else Returned (pacing env st))"
  unfolding LucInjector_handle_message_def
  by (simp only: inspect_chat [OF assms] pacing_keeps)

text \<open>
  C6 (as amended). The script is off at first. A chat message whose content is
  \<^verbatim>\<open>lessgo\<close> turns it on, sets the timer to the time read at that moment and refills the
  worklist with all the items; one whose content is \<^verbatim>\<open>stop\<close> turns it off. A chat
  message with any other content does nothing beyond the pacing step that every
  decoded frame gets: the script stays as it is, and the timer and the worklist are as
  that step leaves them, which is unchanged while the script is off.
\<close>

theorem control_message_switches_script:
  "script (LucInjector_init env its) = ''off''
   \<and> (getitem msg ''__type__'' = Inr (JStr ''ChatClientMultiMessage'')
        \<and> getitem msg ''content'' = Inr (JStr ''lessgo'') \<longrightarrow>
      raised (LucInjector_handle_message env msg origin st) = None
      \<and> script (state_of (LucInjector_handle_message env msg origin st)) = ''on''
      \<and> timer (state_of (LucInjector_handle_message env msg origin st))
          = time_time env (clock (pacing env st))
      \<and> itemsleft (state_of (LucInjector_handle_message env msg origin st))
          = map Some (items st))
   \<and> (getitem msg ''__type__'' = Inr (JStr ''ChatClientMultiMessage'')
        \<and> getitem msg ''content'' = Inr (JStr ''stop'') \<longrightarrow>
      raised (LucInjector_handle_message env msg origin st) = None
      \<and> script (state_of (LucInjector_handle_message env msg origin st)) = ''off'')
   \<and> (getitem msg ''__type__'' = Inr (JStr ''ChatClientMultiMessage'')
        \<and> getitem msg ''content'' = Inr content
        \<and> content \<noteq> JStr ''stop'' \<and> content \<noteq> JStr ''lessgo'' \<longrightarrow>
      LucInjector_handle_message env msg origin st = Returned (pacing env st)
      \<and> script (pacing env st) = script st)
   \<and> (script st \<noteq> ''on'' \<longrightarrow> pacing env st = st)"
proof (intro conjI impI)
  show "script (LucInjector_init env its) = ''off''"
    by (simp add: LucInjector_init_def)
next
  assume a: "getitem msg ''__type__'' = Inr (JStr ''ChatClientMultiMessage'')
        \<and> getitem msg ''content'' = Inr (JStr ''lessgo'')"
  then have h: "LucInjector_handle_message env msg origin st =
      Returned (send_message env ''gooooooooo''
          ((pacing env st)\<lparr>script := ''on'', timer := time_time env (clock (pacing env st)),
              clock := clock (pacing env st) + 1, itemsleft := map Some (items st)\<rparr>))"
    using handle_message_chat [of msg "JStr ''lessgo''" env origin st] by simp
  show "raised (LucInjector_handle_message env msg origin st) = None" by (simp add: h)
  show "script (state_of (LucInjector_handle_message env msg origin st)) = ''on''"
    by (simp add: h send_message_def send_to_server_luc_fields)
  show "timer (state_of (LucInjector_handle_message env msg origin st))
          = time_time env (clock (pacing env st))"
    by (simp add: h send_message_def send_to_server_luc_fields)
  show "itemsleft (state_of (LucInjector_handle_message env msg origin st))
          = map Some (items st)"
    by (simp add: h send_message_def send_to_server_luc_fields)
next
  assume a: "getitem msg ''__type__'' = Inr (JStr ''ChatClientMultiMessage'')
        \<and> getitem msg ''content'' = Inr (JStr ''stop'')"
  then have h: "LucInjector_handle_message env msg origin st =
      Returned (send_message env ''stooooooop'' ((pacing env st)\<lparr>script := ''off''\<rparr>))"
    using handle_message_chat [of msg "JStr ''stop''" env origin st] by simp
  show "raised (LucInjector_handle_message env msg origin st) = None" by (simp add: h)
  show "script (state_of (LucInjector_handle_message env msg origin st)) = ''off''"
    by (simp add: h send_message_def send_to_server_luc_fields)
next
  assume a: "getitem msg ''__type__'' = Inr (JStr ''ChatClientMultiMessage'')
        \<and> getitem msg ''content'' = Inr content
        \<and> content \<noteq> JStr ''stop'' \<and> content \<noteq> JStr ''lessgo''"
  then show "LucInjector_handle_message env msg origin st = Returned (pacing env st)"
    using handle_message_chat [of msg content env origin st] by simp
  show "script (pacing env st) = script st" by (simp add: pacing_keeps)
next
  assume "script st \<noteq> ''on''"
  then show "pacing env st = st" by (rule pacing_idle)
qed

text \<open>
  C9. When \<^verbatim>\<open>handle_message\<close> recognises \<^verbatim>\<open>stop\<close> or \<^verbatim>\<open>lessgo\<close> it also sends one chat
  message to the server, after whatever the pacing step of that frame sent: the message
  goes through \<^verbatim>\<open>send_to_server\<close>, so it is given the counter \<^verbatim>\<open>self.counter + 1\<close> and
  \<^verbatim>\<open>self.injected_to_server\<close> grows by one. While the script is off the pacing step
  sends nothing.
\<close>

theorem control_message_injects_confirmation:
  "(getitem msg ''__type__'' = Inr (JStr ''ChatClientMultiMessage'')
        \<and> getitem msg ''content'' = Inr (JStr ''stop'') \<longrightarrow>
      raised (LucInjector_handle_message env msg origin st) = None
      \<and> injected_to_server (state_of (LucInjector_handle_message env msg origin st))
          = injected_to_server (pacing env st) + 1
      \<and> sent (state_of (LucInjector_handle_message env msg origin st)) CoSer
          = sent (pacing env st) CoSer @
              [Msg_bytes env ((Msg_from_json env
                 (JDict [(''__type__'', JStr ''ChatClientMultiMessage''),
                         (''content'', JStr ''stooooooop''), (''channel'', JInt 0)]))
                   \<lparr>msg_count := Some (counter st + 1)\<rparr>)]
      \<and> sent (state_of (LucInjector_handle_message env msg origin st)) CoJeu = sent st CoJeu
      \<and> counter (state_of (LucInjector_handle_message env msg origin st)) = counter st)
   \<and> (getitem msg ''__type__'' = Inr (JStr ''ChatClientMultiMessage'')
        \<and> getitem msg ''content'' = Inr (JStr ''lessgo'') \<longrightarrow>
      raised (LucInjector_handle_message env msg origin st) = None
      \<and> injected_to_server (state_of (LucInjector_handle_message env msg origin st))
          = injected_to_server (pacing env st) + 1
      \<and> sent (state_of (LucInjector_handle_message env msg origin st)) CoSer
          = sent (pacing env st) CoSer @
              [Msg_bytes env ((Msg_from_json env
                 (JDict [(''__type__'', JStr ''ChatClientMultiMessage''),
                         (''content'', JStr ''gooooooooo''), (''channel'', JInt 0)]))
                   \<lparr>msg_count := Some (counter st + 1)\<rparr>)]
      \<and> sent (state_of (LucInjector_handle_message env msg origin st)) CoJeu = sent st CoJeu
      \<and> counter (state_of (LucInjector_handle_message env msg origin st)) = counter st)
   \<and> (script st \<noteq> ''on'' \<longrightarrow>
        injected_to_server (pacing env st) = injected_to_server st
        \<and> sent (pacing env st) = sent st)"
proof (intro conjI impI)
  assume a: "getitem msg ''__type__'' = Inr (JStr ''ChatClientMultiMessage'')
        \<and> getitem msg ''content'' = Inr (JStr ''stop'')"
  then have h: "LucInjector_handle_message env msg origin st =
      Returned (send_message env ''stooooooop'' ((pacing env st)\<lparr>script := ''off''\<rparr>))"
    using handle_message_chat [of msg "JStr ''stop''" env origin st] by simp
  show "raised (LucInjector_handle_message env msg origin st) = None" by (simp add: h)
  show "injected_to_server (state_of (LucInjector_handle_message env msg origin st))
          = injected_to_server (pacing env st) + 1"
    by (simp add: h send_message_def send_to_server_fields)
  show "sent (state_of (LucInjector_handle_message env msg origin st)) CoSer
          = sent (pacing env st) CoSer @
              [Msg_bytes env ((Msg_from_json env
                 (JDict [(''__type__'', JStr ''ChatClientMultiMessage''),
                         (''content'', JStr ''stooooooop''), (''channel'', JInt 0)]))
                   \<lparr>msg_count := Some (counter st + 1)\<rparr>)]"
    by (simp add: h send_message_def send_to_server_fields pacing_keeps)
  show "sent (state_of (LucInjector_handle_message env msg origin st)) CoJeu = sent st CoJeu"
    by (simp add: h send_message_def send_to_server_fields pacing_keeps)
  show "counter (state_of (LucInjector_handle_message env msg origin st)) = counter st"
    by (simp add: h send_message_def send_to_server_fields pacing_keeps)
next
  assume a: "getitem msg ''__type__'' = Inr (JStr ''ChatClientMultiMessage'')
        \<and> getitem msg ''content'' = Inr (JStr ''lessgo'')"
  then have h: "LucInjector_handle_message env msg origin st =
      Returned (send_message env ''gooooooooo''
          ((pacing env st)\<lparr>script := ''on'', timer := time_time env (clock (pacing env st)),
              clock := clock (pacing env st) + 1, itemsleft := map Some (items st)\<rparr>))"
    using handle_message_chat [of msg "JStr ''lessgo''" env origin st] by simp
  show "raised (LucInjector_handle_message env msg origin st) = None" by (simp add: h)
  show "injected_to_server (state_of (LucInjector_handle_message env msg origin st))
          = injected_to_server (pacing env st) + 1"
    by (simp add: h send_message_def send_to_server_fields)
  show "sent (state_of (LucInjector_handle_message env msg origin st)) CoSer
          = sent (pacing env st) CoSer @
              [Msg_bytes env ((Msg_from_json env
                 (JDict [(''__type__'', JStr ''ChatClientMultiMessage''),
                         (''content'', JStr ''gooooooooo''), (''channel'', JInt 0)]))
                   \<lparr>msg_count := Some (counter st + 1)\<rparr>)]"
    by (simp add: h send_message_def send_to_server_fields pacing_keeps)
  show "sent (state_of (LucInjector_handle_message env msg origin st)) CoJeu = sent st CoJeu"
    by (simp add: h send_message_def send_to_server_fields pacing_keeps)
  show "counter (state_of (LucInjector_handle_message env msg origin st)) = counter st"
    by (simp add: h send_message_def send_to_server_fields pacing_keeps)
next
  assume "script st \<noteq> ''on''"
  then have "pacing env st = st" by (rule pacing_idle)
  then show "injected_to_server (pacing env st) = injected_to_server st"
    and "sent (pacing env st) = sent st"
    by simp_all
qed

theorem control_message_switches_script_witness:
  "script (LucInjector_init demo_env [7, 8, 9]) = ''off''
   \<and> script (state_of (LucInjector_handle_message demo_env
        (JDict [(''__type__'', JStr ''ChatClientMultiMessage''), (''content'', JStr ''lessgo''),
                (''channel'', JInt 0)]) CoJeu (LucInjector_init demo_env [7, 8, 9]))) = ''on''
   \<and> timer (state_of (LucInjector_handle_message demo_env
        (JDict [(''__type__'', JStr ''ChatClientMultiMessage''), (''content'', JStr ''lessgo''),
                (''channel'', JInt 0)]) CoJeu (LucInjector_init demo_env [7, 8, 9]))) = 1
   \<and> itemsleft (state_of (LucInjector_handle_message demo_env
        (JDict [(''__type__'', JStr ''ChatClientMultiMessage''), (''content'', JStr ''lessgo''),
                (''channel'', JInt 0)]) CoJeu (LucInjector_init demo_env [7, 8, 9])))
       = [Some 7, Some 8, Some 9]
   \<and> script (state_of (LucInjector_handle_message demo_env
        (JDict [(''__type__'', JStr ''ChatClientMultiMessage''), (''content'', JStr ''stop''),
                (''channel'', JInt 0)]) CoJeu
        ((LucInjector_init demo_env [7, 8, 9])\<lparr>script := ''on'', itemsleft := [Some 7]\<rparr>))) = ''off''
   \<and> LucInjector_handle_message demo_env
        (JDict [(''__type__'', JStr ''ChatClientMultiMessage''), (''content'', JStr ''hello''),
                (''channel'', JInt 0)]) CoJeu (LucInjector_init demo_env [7, 8, 9])
       = Returned (LucInjector_init demo_env [7, 8, 9])"
proof -
  let ?I = "LucInjector_init demo_env [7, 8, 9]"
  let ?S = "(LucInjector_init demo_env [7, 8, 9])\<lparr>script := ''on'', itemsleft := [Some 7]\<rparr>"
  let ?go = "JDict [(''__type__'', JStr ''ChatClientMultiMessage''), (''content'', JStr ''lessgo''),
                (''channel'', JInt 0)]"
  let ?stop = "JDict [(''__type__'', JStr ''ChatClientMultiMessage''), (''content'', JStr ''stop''),
                (''channel'', JInt 0)]"
  let ?hello = "JDict [(''__type__'', JStr ''ChatClientMultiMessage''), (''content'', JStr ''hello''),
                (''channel'', JInt 0)]"
  note T = control_message_switches_script [where env = demo_env and origin = CoJeu]
  have hgo: "getitem ?go ''__type__'' = Inr (JStr ''ChatClientMultiMessage'')
        \<and> getitem ?go ''content'' = Inr (JStr ''lessgo'')"
    by simp
  have hstop: "getitem ?stop ''__type__'' = Inr (JStr ''ChatClientMultiMessage'')
        \<and> getitem ?stop ''content'' = Inr (JStr ''stop'')"
    by simp
  have hhello: "getitem ?hello ''__type__'' = Inr (JStr ''ChatClientMultiMessage'')
        \<and> getitem ?hello ''content'' = Inr (JStr ''hello'')
        \<and> JStr ''hello'' \<noteq> JStr ''stop'' \<and> JStr ''hello'' \<noteq> JStr ''lessgo''"
    by simp
  have hidle: "script ?I \<noteq> ''on''" by (simp add: LucInjector_init_def)
  from T [where its = "[7, 8, 9]"] have c0: "script ?I = ''off''" by blast
  from T [where msg = ?go and st = ?I] hgo
  have c1: "script (state_of (LucInjector_handle_message demo_env ?go CoJeu ?I)) = ''on''
      \<and> timer (state_of (LucInjector_handle_message demo_env ?go CoJeu ?I))
          = time_time demo_env (clock (pacing demo_env ?I))
      \<and> itemsleft (state_of (LucInjector_handle_message demo_env ?go CoJeu ?I))
          = map Some (items ?I)"
    by blast
  from T [where msg = ?stop and st = ?S] hstop
  have c2: "script (state_of (LucInjector_handle_message demo_env ?stop CoJeu ?S)) = ''off''"
    by blast
  from T [where msg = ?hello and st = ?I and content = "JStr ''hello''"] hhello
  have c3: "LucInjector_handle_message demo_env ?hello CoJeu ?I = Returned (pacing demo_env ?I)"
    by blast
  from T [where st = ?I] hidle have c4: "pacing demo_env ?I = ?I"
    by blast
  show ?thesis
    apply (intro conjI)
    subgoal by (rule c0)
    subgoal using c1 by blast
    subgoal by (simp only: c1 c4) (simp add: LucInjector_init_def demo_env_def)
    subgoal by (simp only: c1) (simp add: LucInjector_init_def)
    subgoal by (rule c2)
    subgoal by (simp only: c3 c4)
    done
qed

theorem other_content_while_running_counterexample:
  "script ((LucInjector_init demo_env [7, 8, 9])
        \<lparr>script := ''on'', itemsleft := [Some 7, Some 8, Some 9]\<rparr>) = ''on''
   \<and> itemsleft (state_of (LucInjector_handle_message demo_env
        (JDict [(''__type__'', JStr ''ChatClientMultiMessage''), (''content'', JStr ''hello''),
                (''channel'', JInt 0)]) CoJeu
        ((LucInjector_init demo_env [7, 8, 9])
           \<lparr>script := ''on'', itemsleft := [Some 7, Some 8, Some 9]\<rparr>)))
       = [Some 7, Some 8]
   \<and> timer ((LucInjector_init demo_env [7, 8, 9])
        \<lparr>script := ''on'', itemsleft := [Some 7, Some 8, Some 9]\<rparr>) = 0
   \<and> timer (state_of (LucInjector_handle_message demo_env
        (JDict [(''__type__'', JStr ''ChatClientMultiMessage''), (''content'', JStr ''hello''),
                (''channel'', JInt 0)]) CoJeu
        ((LucInjector_init demo_env [7, 8, 9])
           \<lparr>script := ''on'', itemsleft := [Some 7, Some 8, Some 9]\<rparr>))) = 1"
  by (simp add: luc_run LucInjector_handle_message_def inspect_def masked_def)

theorem control_message_injects_confirmation_witness:
  "sent (state_of (LucInjector_handle_message demo_env
        (JDict [(''__type__'', JStr ''ChatClientMultiMessage''), (''content'', JStr ''stop''),
                (''channel'', JInt 0)]) CoJeu (LucInjector_init demo_env [7, 8, 9]))) CoSer
     = [[1, 1, 10, 115, 116, 111, 111, 111, 111, 111, 111, 111, 112]]
   \<and> injected_to_server (state_of (LucInjector_handle_message demo_env
        (JDict [(''__type__'', JStr ''ChatClientMultiMessage''), (''content'', JStr ''stop''),
                (''channel'', JInt 0)]) CoJeu (LucInjector_init demo_env [7, 8, 9]))) = 1
   \<and> sent (state_of (LucInjector_handle_message demo_env
        (JDict [(''__type__'', JStr ''ChatClientMultiMessage''), (''content'', JStr ''lessgo''),
                (''channel'', JInt 0)]) CoJeu (LucInjector_init demo_env [7, 8, 9]))) CoSer
     = [[1, 1, 10, 103, 111, 111, 111, 111, 111, 111, 111, 111, 111]]
   \<and> injected_to_server (state_of (LucInjector_handle_message demo_env
        (JDict [(''__type__'', JStr ''ChatClientMultiMessage''), (''content'', JStr ''lessgo''),
                (''channel'', JInt 0)]) CoJeu (LucInjector_init demo_env [7, 8, 9]))) = 1"
proof -
  let ?I = "LucInjector_init demo_env [7, 8, 9]"
  let ?go = "JDict [(''__type__'', JStr ''ChatClientMultiMessage''), (''content'', JStr ''lessgo''),
                (''channel'', JInt 0)]"
  let ?stop = "JDict [(''__type__'', JStr ''ChatClientMultiMessage''), (''content'', JStr ''stop''),
                (''channel'', JInt 0)]"
  note T = control_message_injects_confirmation [where env = demo_env and origin = CoJeu and st = ?I]
  have hgo: "getitem ?go ''__type__'' = Inr (JStr ''ChatClientMultiMessage'')
        \<and> getitem ?go ''content'' = Inr (JStr ''lessgo'')"
    by simp
  have hstop: "getitem ?stop ''__type__'' = Inr (JStr ''ChatClientMultiMessage'')
        \<and> getitem ?stop ''content'' = Inr (JStr ''stop'')"
    by simp
  have hidle: "script ?I \<noteq> ''on''" by (simp add: LucInjector_init_def)
  from T [where msg = ?stop] hidle
  have p: "injected_to_server (pacing demo_env ?I) = injected_to_server ?I
        \<and> sent (pacing demo_env ?I) = sent ?I"
    by blast
  from T [where msg = ?stop] hstop
  have c1: "injected_to_server (state_of (LucInjector_handle_message demo_env ?stop CoJeu ?I))
          = injected_to_server (pacing demo_env ?I) + 1
      \<and> sent (state_of (LucInjector_handle_message demo_env ?stop CoJeu ?I)) CoSer
          = sent (pacing demo_env ?I) CoSer @
              [Msg_bytes demo_env ((Msg_from_json demo_env
                 (JDict [(''__type__'', JStr ''ChatClientMultiMessage''),
                         (''content'', JStr ''stooooooop''), (''channel'', JInt 0)]))
                   \<lparr>msg_count := Some (counter ?I + 1)\<rparr>)]"
    by blast
  from T [where msg = ?go] hgo
  have c2: "injected_to_server (state_of (LucInjector_handle_message demo_env ?go CoJeu ?I))
          = injected_to_server (pacing demo_env ?I) + 1
      \<and> sent (state_of (LucInjector_handle_message demo_env ?go CoJeu ?I)) CoSer
          = sent (pacing demo_env ?I) CoSer @
              [Msg_bytes demo_env ((Msg_from_json demo_env
                 (JDict [(''__type__'', JStr ''ChatClientMultiMessage''),
                         (''content'', JStr ''gooooooooo''), (''channel'', JInt 0)]))
                   \<lparr>msg_count := Some (counter ?I + 1)\<rparr>)]"
    by blast
  show ?thesis
    apply (intro conjI)
    subgoal by (simp only: c1 p)
        (simp add: LucInjector_init_def demo_env_def demo_from_json_def demo_bytes_def)
    subgoal by (simp only: c1 p) (simp add: LucInjector_init_def)
    subgoal by (simp only: c2 p)
        (simp add: LucInjector_init_def demo_env_def demo_from_json_def demo_bytes_def)
    subgoal by (simp only: c2 p) (simp add: LucInjector_init_def)
    done
qed

section \<open>Failures of the sinks\<close>

lemma known_server_dump_raises:
  assumes "protocol_read env t (msg_data m) = Inr (parsedMsg, remaining)"
    and "remaining \<in> {0, 48}"
    and "dumper st = Some d" and "d m = Some e"
  shows "InjectorBridgeHandler_known env CoSer t m st =
         Raised e (st\<lparr>counter := counter st + 1,
                      db := deque_append (db_size st) (db st) m\<rparr>)"
  using assms
  by (auto simp: InjectorBridgeHandler_known_def Let_def)

lemma known_client_dump_raises:
  assumes "protocol_read env t (msg_data m) = Inr (parsedMsg, remaining)"
    and "remaining \<in> {0, 48}"
    and "msg_count m = Some c"
    and "dumper st = Some d"
    and "d (m\<lparr>msg_count := Some (c + (injected_to_server st - injected_to_client st))\<rparr>) = Some e"
  shows "InjectorBridgeHandler_known env CoJeu t m st =
         Raised e (st\<lparr>counter := c + (injected_to_server st - injected_to_client st),
                      db := deque_append (db_size st) (db st)
                        (m\<lparr>msg_count :=
                             Some (c + (injected_to_server st - injected_to_client st))\<rparr>)\<rparr>)"
  using assms
  by (auto simp: InjectorBridgeHandler_known_def Let_def)

lemma InjectorBridgeHandler_while_raises:
  assumes "protocol_msg_from_id env (msg_id m) = Some t"
    and "InjectorBridgeHandler_known env origin t m st = Raised e st'"
  shows "InjectorBridgeHandler_while env origin (Some m) st = Some (Raised e st')"
  using assms by (subst InjectorBridgeHandler_while.simps) simp

lemma MsgBridgeHandler_while_raises:
  assumes "MsgBridgeHandler_body env handle_message origin m st = Raised e st'"
  shows "MsgBridgeHandler_while env handle_message origin (Some m) st = Some (Raised e st')"
  using assms by (subst MsgBridgeHandler_while.simps) simp

lemma handle_message_report_raises:
  assumes "getitem msg ''__type__''
             = Inr (JStr ''ExchangeTypesItemsExchangerDescriptionForUserMessage'')"
    and "price_report msg = Inr (Some (itemID, prices))"
    and "requests_get env itemID prices = Some e"
  shows "LucInjector_handle_message env msg origin st = Raised e (pacing env st)"
  unfolding LucInjector_handle_message_def
  using assms(2,3) by (simp add: inspect_price [OF assms(1)])

text \<open>
  C8 (as amended). Nothing in the handlers catches an error of a sink. When
  \<^verbatim>\<open>dumper.dump\<close> raises on a decoded message, \<^verbatim>\<open>InjectorBridgeHandler.handle\<close> raises that
  error, after the counter and \<^verbatim>\<open>self.db\<close> were updated for the message; when the
  \<^verbatim>\<open>requests.get\<close> that reports the prices raises, \<^verbatim>\<open>LucInjector.handle\<close> raises that
  error, after the pacing step. The frames left in the buffer are not handled, the error
  leaves \<^verbatim>\<open>loop\<close>, and the session ends with both sockets closed.
\<close>

theorem sink_failure_ends_session:
  "(protocol_msg_from_id env (msg_id m) = Some t
      \<and> protocol_read env t (msg_data m) = Inr (parsedMsg, remaining) \<and> remaining \<in> {0, 48}
      \<and> dumper st = Some d \<and> d m = Some e \<longrightarrow>
    InjectorBridgeHandler_while env CoSer (Some m) st =
      Some (Raised e (st\<lparr>counter := counter st + 1,
                          db := deque_append (db_size st) (db st) m\<rparr>)))
   \<and> (protocol_msg_from_id env (msg_id m) = Some t
      \<and> protocol_read env t (msg_data m) = Inr (parsedMsg, remaining) \<and> remaining \<in> {0, 48}
      \<and> msg_count m = Some c \<and> dumper st = Some d
      \<and> d (m\<lparr>msg_count := Some (c + (injected_to_server st - injected_to_client st))\<rparr>) = Some e \<longrightarrow>
    InjectorBridgeHandler_while env CoJeu (Some m) st =
      Some (Raised e (st\<lparr>counter := c + (injected_to_server st - injected_to_client st),
                          db := deque_append (db_size st) (db st)
                            (m\<lparr>msg_count :=
                                 Some (c + (injected_to_server st - injected_to_client st))\<rparr>)\<rparr>)))
   \<and> (protocol_msg_from_id env (msg_id m) = Some t
      \<and> protocol_read env t (msg_data m) = Inr (parsedMsg, 0)
      \<and> getitem parsedMsg ''__type__''
          = Inr (JStr ''ExchangeTypesItemsExchangerDescriptionForUserMessage'')
      \<and> price_report parsedMsg = Inr (Some (itemID, prices))
      \<and> requests_get env itemID prices = Some e \<longrightarrow>
    MsgBridgeHandler_while env (LucInjector_handle_message env) origin (Some m) lst =
      Some (Raised e (pacing env lst)))
   \<and> (data \<noteq> [] \<and> InjectorBridgeHandler_handle env data origin (policy s) = Some (Raised e p) \<longrightarrow>
    loop (InjectorBridgeHandler_handle env) (Select ((origin, Recv data) # post) [] # evs) s
      = Some (Propagated e
          (close_all (s\<lparr>policy := p, delivered := delivered s @ [(data, origin)]\<rparr>))))
   \<and> (data \<noteq> [] \<and> LucInjector_handle env data origin (policy ls) = Some (Raised e lp) \<longrightarrow>
    loop (LucInjector_handle env) (Select ((origin, Recv data) # post) [] # evs) ls
      = Some (Propagated e
          (close_all (ls\<lparr>policy := lp, delivered := delivered ls @ [(data, origin)]\<rparr>))))"
proof (intro conjI impI)
  assume a: "protocol_msg_from_id env (msg_id m) = Some t
      \<and> protocol_read env t (msg_data m) = Inr (parsedMsg, remaining) \<and> remaining \<in> {0, 48}
      \<and> dumper st = Some d \<and> d m = Some e"
  then have "InjectorBridgeHandler_known env CoSer t m st =
         Raised e (st\<lparr>counter := counter st + 1,
                      db := deque_append (db_size st) (db st) m\<rparr>)"
    by (intro known_server_dump_raises [of env t m parsedMsg remaining st d e]) blast+
  with a show "InjectorBridgeHandler_while env CoSer (Some m) st =
      Some (Raised e (st\<lparr>counter := counter st + 1,
                          db := deque_append (db_size st) (db st) m\<rparr>))"
    by (intro InjectorBridgeHandler_while_raises [of env m t]) blast+
next
  assume a: "protocol_msg_from_id env (msg_id m) = Some t
      \<and> protocol_read env t (msg_data m) = Inr (parsedMsg, remaining) \<and> remaining \<in> {0, 48}
      \<and> msg_count m = Some c \<and> dumper st = Some d
      \<and> d (m\<lparr>msg_count := Some (c + (injected_to_server st - injected_to_client st))\<rparr>) = Some e"
  then have "InjectorBridgeHandler_known env CoJeu t m st =
         Raised e (st\<lparr>counter := c + (injected_to_server st - injected_to_client st),
                      db := deque_append (db_size st) (db st)
                        (m\<lparr>msg_count :=
                             Some (c + (injected_to_server st - injected_to_client st))\<rparr>)\<rparr>)"
    by (intro known_client_dump_raises [of env t m parsedMsg remaining c st d e]) blast+
  with a show "InjectorBridgeHandler_while env CoJeu (Some m) st =
      Some (Raised e (st\<lparr>counter := c + (injected_to_server st - injected_to_client st),
                          db := deque_append (db_size st) (db st)
                            (m\<lparr>msg_count :=
                                 Some (c + (injected_to_server st - injected_to_client st))\<rparr>)\<rparr>))"
    by (intro InjectorBridgeHandler_while_raises [of env m t]) blast+
next
  assume a: "protocol_msg_from_id env (msg_id m) = Some t
      \<and> protocol_read env t (msg_data m) = Inr (parsedMsg, 0)
      \<and> getitem parsedMsg ''__type__''
          = Inr (JStr ''ExchangeTypesItemsExchangerDescriptionForUserMessage'')
      \<and> price_report parsedMsg = Inr (Some (itemID, prices))
      \<and> requests_get env itemID prices = Some e"
  then have "LucInjector_handle_message env parsedMsg origin lst = Raised e (pacing env lst)"
    by (intro handle_message_report_raises [of parsedMsg itemID prices env e]) blast+
  with a have "MsgBridgeHandler_body env (LucInjector_handle_message env) origin m lst
      = Raised e (pacing env lst)"
    by (simp add: MsgBridgeHandler_body_def)
  then show "MsgBridgeHandler_while env (LucInjector_handle_message env) origin (Some m) lst =
      Some (Raised e (pacing env lst))"
    by (rule MsgBridgeHandler_while_raises)
next
  assume "data \<noteq> [] \<and> InjectorBridgeHandler_handle env data origin (policy s) = Some (Raised e p)"
  then show "loop (InjectorBridgeHandler_handle env) (Select ((origin, Recv data) # post) [] # evs) s
      = Some (Propagated e
          (close_all (s\<lparr>policy := p, delivered := delivered s @ [(data, origin)]\<rparr>)))"
    by (intro loop_handle_raises) blast+
next
  assume "data \<noteq> [] \<and> LucInjector_handle env data origin (policy ls) = Some (Raised e lp)"
  then show "loop (LucInjector_handle env) (Select ((origin, Recv data) # post) [] # evs) ls
      = Some (Propagated e
          (close_all (ls\<lparr>policy := lp, delivered := delivered ls @ [(data, origin)]\<rparr>)))"
    by (intro loop_handle_raises) blast+
qed

lemmas luc_handle_run =
  LucInjector_handle_def MsgBridgeHandler_handle_def MsgBridgeHandler_while.simps fetch_def
  buf_append_def DummyBridgeHandler_handle_def MsgBridgeHandler_body_def
  LucInjector_handle_message_def inspect_def price_report_def masked_def
  demo_env_unreachable_def demo_msg_from_id_def demo_read_def

theorem sink_failure_is_not_swallowed_counterexample:
  "map_option (\<lambda>r. (propagated r, close_calls (session_of r) CoJeu, close_calls (session_of r) CoSer,
                     counter (policy (session_of r)), delivered (session_of r)))
     (loop (InjectorBridgeHandler_handle demo_env)
        [Select [(CoSer, Recv [3, 1, 1, 3, 1, 0])] [], Select [(CoSer, Recv [3, 1, 1])] []]
        (new_session (InjectorBridgeHandler_init 100 (Some failing_dumper))))
   = Some (Some (OtherError ''OSError''), 1, 1, 1, [([3, 1, 1, 3, 1, 0], CoSer)])
   \<and> map_option (\<lambda>r. (propagated r, close_calls (session_of r) CoJeu, close_calls (session_of r) CoSer,
                     delivered (session_of r)))
     (loop (LucInjector_handle demo_env_unreachable)
        [Select [(CoSer, Recv [2, 4, 9, 10, 20, 30])] [], Select [(CoSer, Recv [3, 1, 1])] []]
        (new_session (LucInjector_init demo_env_unreachable [7, 8, 9])))
   = Some (Some (OtherError ''ConnectionError''), 1, 1, [([2, 4, 9, 10, 20, 30], CoSer)])"
  by (simp add: loop_def new_session_def close_calls_close_all close_all_keeps demo_run
      failing_dumper_def luc_handle_run luc_run)

theorem sink_failure_ends_session_witness:
  "map_option raised (InjectorBridgeHandler_while demo_env CoSer
       (Some \<lparr>msg_id = 3, msg_data = [1], msg_count = None\<rparr>)
       (InjectorBridgeHandler_init 100 (Some failing_dumper)))
     = Some (Some (OtherError ''OSError''))
   \<and> map_option raised (InjectorBridgeHandler_while demo_env CoJeu
       (Some \<lparr>msg_id = 1, msg_data = [], msg_count = Some 2\<rparr>)
       (InjectorBridgeHandler_init 100 (Some failing_dumper)))
     = Some (Some (OtherError ''OSError''))
   \<and> map_option raised (MsgBridgeHandler_while demo_env_unreachable
       (LucInjector_handle_message demo_env_unreachable) CoSer
       (Some \<lparr>msg_id = 2, msg_data = [9, 10, 20, 30], msg_count = None\<rparr>)
       (LucInjector_init demo_env_unreachable [7, 8, 9]))
     = Some (Some (OtherError ''ConnectionError''))
   \<and> (\<exists>r. loop (InjectorBridgeHandler_handle demo_env)
            [Select [(CoSer, Recv [3, 1, 1])] [], Select [(CoSer, Recv [3, 1, 0])] []]
            (new_session (InjectorBridgeHandler_init 100 (Some failing_dumper))) = Some r
         \<and> propagated r = Some (OtherError ''OSError'')
         \<and> close_calls (session_of r) CoJeu = 1 \<and> close_calls (session_of r) CoSer = 1)
   \<and> (\<exists>r. loop (LucInjector_handle demo_env_unreachable)
            [Select [(CoSer, Recv [2, 4, 9, 10, 20, 30])] [], Select [(CoSer, Recv [3, 1, 0])] []]
            (new_session (LucInjector_init demo_env_unreachable [7, 8, 9])) = Some r
         \<and> propagated r = Some (OtherError ''ConnectionError'')
         \<and> close_calls (session_of r) CoJeu = 1 \<and> close_calls (session_of r) CoSer = 1)"
proof -
  let ?I = "InjectorBridgeHandler_init 100 (Some failing_dumper)"
  let ?L = "LucInjector_init demo_env_unreachable [7, 8, 9]"
  let ?m3 = "\<lparr>msg_id = 3, msg_data = [1], msg_count = None\<rparr>"
  let ?m1 = "\<lparr>msg_id = 1, msg_data = [], msg_count = Some 2\<rparr>"
  let ?m2 = "\<lparr>msg_id = 2, msg_data = [9, 10, 20, 30], msg_count = None\<rparr>"
  let ?pong = "JDict [(''__type__'', JStr ''BasicPongMessage''), (''quiet'', JBool True)]"
  let ?chat = "JDict [(''__type__'', JStr ''ChatClientMultiMessage''), (''content'', JStr []),
                      (''channel'', JInt 0)]"
  let ?price = "JDict [(''__type__'', JStr ''ExchangeTypesItemsExchangerDescriptionForUserMessage''),
                       (''itemTypeDescriptions'',
                          JList [JDict [(''objectGID'', JInt 9),
                                        (''prices'', JList [JInt 10, JInt 20, JInt 30])]])]"
  let ?err = "OtherError ''OSError''"
  let ?cerr = "OtherError ''ConnectionError''"
  note T = sink_failure_ends_session
  have h1: "protocol_msg_from_id demo_env (msg_id ?m3) = Some ''BasicPongMessage''
      \<and> protocol_read demo_env ''BasicPongMessage'' (msg_data ?m3) = Inr (?pong, 0)
      \<and> (0::nat) \<in> {0, 48}
      \<and> dumper ?I = Some failing_dumper \<and> failing_dumper ?m3 = Some ?err"
    by (simp add: demo_env_def demo_msg_from_id_def demo_read_def InjectorBridgeHandler_init_def
        failing_dumper_def)
  have h2: "protocol_msg_from_id demo_env (msg_id ?m1) = Some ''ChatClientMultiMessage''
      \<and> protocol_read demo_env ''ChatClientMultiMessage'' (msg_data ?m1) = Inr (?chat, 0)
      \<and> (0::nat) \<in> {0, 48}
      \<and> msg_count ?m1 = Some 2 \<and> dumper ?I = Some failing_dumper
      \<and> failing_dumper (?m1\<lparr>msg_count := Some (2 + (injected_to_server ?I - injected_to_client ?I))\<rparr>)
          = Some ?err"
    by (simp add: demo_env_def demo_msg_from_id_def demo_read_def InjectorBridgeHandler_init_def
        failing_dumper_def)
  have h3: "protocol_msg_from_id demo_env_unreachable (msg_id ?m2)
          = Some ''ExchangeTypesItemsExchangerDescriptionForUserMessage''
      \<and> protocol_read demo_env_unreachable
            ''ExchangeTypesItemsExchangerDescriptionForUserMessage'' (msg_data ?m2)
          = Inr (?price, 0)
      \<and> getitem ?price ''__type__''
          = Inr (JStr ''ExchangeTypesItemsExchangerDescriptionForUserMessage'')
      \<and> price_report ?price = Inr (Some (JInt 9, [JInt 10, JInt 20, JInt 30]))
      \<and> requests_get demo_env_unreachable (JInt 9) [JInt 10, JInt 20, JInt 30] = Some ?cerr"
    by (simp add: demo_env_unreachable_def demo_env_def demo_msg_from_id_def demo_read_def
        price_report_def)
  have "\<exists>p. InjectorBridgeHandler_handle demo_env [3, 1, 1] CoSer ?I = Some (Raised ?err p)"
    by (simp add: demo_run failing_dumper_def)
  then obtain p where p: "InjectorBridgeHandler_handle demo_env [3, 1, 1] CoSer ?I
      = Some (Raised ?err p)" ..
  have "\<exists>p. LucInjector_handle demo_env_unreachable [2, 4, 9, 10, 20, 30] CoSer ?L
      = Some (Raised ?cerr p)"
    by (simp add: luc_handle_run luc_run)
  then obtain lp where lp: "LucInjector_handle demo_env_unreachable [2, 4, 9, 10, 20, 30] CoSer ?L
      = Some (Raised ?cerr lp)" ..
  from p have h4: "[3, 1, 1] \<noteq> ([]::bytes)
      \<and> InjectorBridgeHandler_handle demo_env [3, 1, 1] CoSer (policy (new_session ?I))
          = Some (Raised ?err p)"
    by (simp add: new_session_def)
  from lp have h5: "[2, 4, 9, 10, 20, 30] \<noteq> ([]::bytes)
      \<and> LucInjector_handle demo_env_unreachable [2, 4, 9, 10, 20, 30] CoSer (policy (new_session ?L))
          = Some (Raised ?cerr lp)"
    by (simp add: new_session_def)
  from T [where env = demo_env and m = ?m3 and t = "''BasicPongMessage''" and parsedMsg = ?pong
      and remaining = 0 and st = ?I and d = failing_dumper and e = ?err] h1
  have c1: "InjectorBridgeHandler_while demo_env CoSer (Some ?m3) ?I =
      Some (Raised ?err (?I\<lparr>counter := counter ?I + 1,
                          db := deque_append (db_size ?I) (db ?I) ?m3\<rparr>))"
    by blast
  from T [where env = demo_env and m = ?m1 and t = "''ChatClientMultiMessage''"
      and parsedMsg = ?chat and remaining = 0 and st = ?I and d = failing_dumper and e = ?err
      and c = 2] h2
  have c2: "InjectorBridgeHandler_while demo_env CoJeu (Some ?m1) ?I =
      Some (Raised ?err (?I\<lparr>counter := 2 + (injected_to_server ?I - injected_to_client ?I),
                          db := deque_append (db_size ?I) (db ?I)
                            (?m1\<lparr>msg_count :=
                                 Some (2 + (injected_to_server ?I - injected_to_client ?I))\<rparr>)\<rparr>))"
    by blast
  from T [where env = demo_env_unreachable and m = ?m2
      and t = "''ExchangeTypesItemsExchangerDescriptionForUserMessage''" and parsedMsg = ?price
      and itemID = "JInt 9" and prices = "[JInt 10, JInt 20, JInt 30]" and e = ?cerr
      and origin = CoSer and lst = ?L] h3
  have c3: "MsgBridgeHandler_while demo_env_unreachable
        (LucInjector_handle_message demo_env_unreachable) CoSer (Some ?m2) ?L
      = Some (Raised ?cerr (pacing demo_env_unreachable ?L))"
    by blast
  from T [where env = demo_env and data = "[3, 1, 1]" and origin = CoSer
      and s = "new_session ?I" and e = ?err and p = p and post = "[]"
      and evs = "[Select [(CoSer, Recv [3, 1, 0])] []]"] h4
  have c4: "loop (InjectorBridgeHandler_handle demo_env)
        (Select ((CoSer, Recv [3, 1, 1]) # []) [] # [Select [(CoSer, Recv [3, 1, 0])] []])
        (new_session ?I)
      = Some (Propagated ?err
          (close_all ((new_session ?I)\<lparr>policy := p,
             delivered := delivered (new_session ?I) @ [([3, 1, 1], CoSer)]\<rparr>)))"
    by blast
  from T [where env = demo_env_unreachable and data = "[2, 4, 9, 10, 20, 30]" and origin = CoSer
      and ls = "new_session ?L" and e = ?cerr and lp = lp and post = "[]"
      and evs = "[Select [(CoSer, Recv [3, 1, 0])] []]"] h5
  have c5: "loop (LucInjector_handle demo_env_unreachable)
        (Select ((CoSer, Recv [2, 4, 9, 10, 20, 30]) # []) [] # [Select [(CoSer, Recv [3, 1, 0])] []])
        (new_session ?L)
      = Some (Propagated ?cerr
          (close_all ((new_session ?L)\<lparr>policy := lp,
             delivered := delivered (new_session ?L) @ [([2, 4, 9, 10, 20, 30], CoSer)]\<rparr>)))"
    by blast
  show ?thesis
    apply (intro conjI)
    subgoal by (simp only: c1) simp
    subgoal by (simp only: c2) simp
    subgoal by (simp only: c3) simp
    subgoal by (simp only: c4) (simp add: close_calls_close_all new_session_def)
    subgoal by (simp only: c5) (simp add: close_calls_close_all new_session_def)
    done
qed

end
